theory Spec2Isabelle
  imports
    Main
    "HOL-Library.Word"
    "HOL-Library.Char_ord"
    "HOL-Library.List_Lexorder"
    "HOL-Library.Product_Lexorder"
    "HOL-Library.Multiset"
    "HOL-Library.AList"
begin

unbundle bit_operations_syntax

section \<open>Chat rooms of waste-cycle: server/src/controllers/chatController.js\<close>

text \<open>
  The controller is embedded function by function. A JavaScript string is a
  \<^typ>\<open>string\<close>: a list of 8-bit characters, compared character by character
  (\<open>HOL-Library.List_Lexorder\<close> over \<open>HOL-Library.Char_ord\<close>), which is
  JavaScript's default sort order and Firestore's string order for ASCII
  identifiers and ISO timestamps.
\<close>

subsection \<open>SHA-256, as \<open>crypto.createHash('sha256')\<close> computes it\<close>

text \<open>
  Node's \<open>crypto\<close> module is a library, not code of the repository. Its
  SHA-256 is written out after FIPS 180-4 on 32-bit words so that the room
  identifier is a concrete function of its inputs.
\<close>

type_synonym w32 = "32 word"

type_synonym byte = "8 word"

definition K256 :: "w32 list" where
  "K256 =
   [0x428A2F98, 0x71374491, 0xB5C0FBCF, 0xE9B5DBA5, 0x3956C25B, 0x59F111F1, 0x923F82A4, 0xAB1C5ED5,
    0xD807AA98, 0x12835B01, 0x243185BE, 0x550C7DC3, 0x72BE5D74, 0x80DEB1FE, 0x9BDC06A7, 0xC19BF174,
    0xE49B69C1, 0xEFBE4786, 0x0FC19DC6, 0x240CA1CC, 0x2DE92C6F, 0x4A7484AA, 0x5CB0A9DC, 0x76F988DA,
    0x983E5152, 0xA831C66D, 0xB00327C8, 0xBF597FC7, 0xC6E00BF3, 0xD5A79147, 0x06CA6351, 0x14292967,
    0x27B70A85, 0x2E1B2138, 0x4D2C6DFC, 0x53380D13, 0x650A7354, 0x766A0ABB, 0x81C2C92E, 0x92722C85,
    0xA2BFE8A1, 0xA81A664B, 0xC24B8B70, 0xC76C51A3, 0xD192E819, 0xD6990624, 0xF40E3585, 0x106AA070,
    0x19A4C116, 0x1E376C08, 0x2748774C, 0x34B0BCB5, 0x391C0CB3, 0x4ED8AA4A, 0x5B9CCA4F, 0x682E6FF3,
    0x748F82EE, 0x78A5636F, 0x84C87814, 0x8CC70208, 0x90BEFFFA, 0xA4506CEB, 0xBEF9A3F7, 0xC67178F2]"

definition rotr :: "nat \<Rightarrow> w32 \<Rightarrow> w32" where
  "rotr n x = drop_bit n x OR push_bit (32 - n) x"

definition Ch :: "w32 \<Rightarrow> w32 \<Rightarrow> w32 \<Rightarrow> w32" where
  "Ch x y z = (x AND y) XOR (NOT x AND z)"

definition Maj :: "w32 \<Rightarrow> w32 \<Rightarrow> w32 \<Rightarrow> w32" where
  "Maj x y z = (x AND y) XOR (x AND z) XOR (y AND z)"

definition bsig0 :: "w32 \<Rightarrow> w32" where
  "bsig0 x = rotr 2 x XOR rotr 13 x XOR rotr 22 x"

definition bsig1 :: "w32 \<Rightarrow> w32" where
  "bsig1 x = rotr 6 x XOR rotr 11 x XOR rotr 25 x"

definition ssig0 :: "w32 \<Rightarrow> w32" where
  "ssig0 x = rotr 7 x XOR rotr 18 x XOR drop_bit 3 x"

definition ssig1 :: "w32 \<Rightarrow> w32" where
  "ssig1 x = rotr 17 x XOR rotr 19 x XOR drop_bit 10 x"

text \<open>
  Padding: the message, the byte 0x80, zero bytes up to 56 modulo 64, and the
  length of the message in bits as a 64-bit big-endian number.
\<close>

definition len_bytes :: "64 word \<Rightarrow> byte list" where
  "len_bytes n = map (\<lambda>i. ucast (drop_bit (8 * i) n)) [7, 6, 5, 4, 3, 2, 1, 0]"

definition pad :: "byte list \<Rightarrow> byte list" where
  "pad bs =
     bs @ [0x80] @ replicate ((119 - length bs mod 64) mod 64) 0
        @ len_bytes (of_nat (8 * length bs))"

fun be_word :: "byte list \<Rightarrow> w32" where
  "be_word bs = foldl (\<lambda>acc b. push_bit 8 acc OR ucast b) 0 bs"

fun words_of :: "nat \<Rightarrow> byte list \<Rightarrow> w32 list" where
  "words_of 0 bs = []"
| "words_of (Suc n) bs = be_word (take 4 bs) # words_of n (drop 4 bs)"

text \<open>
  The message schedule, newest word first: with \<open>W(t-1), ..., W(0)\<close> in the
  list, \<open>W(t) = ssig1 W(t-2) + W(t-7) + ssig0 W(t-15) + W(t-16)\<close>.
\<close>

fun schedule :: "nat \<Rightarrow> w32 list \<Rightarrow> w32 list" where
  "schedule 0 ws = ws"
| "schedule (Suc n) ws =
     schedule n ((ssig1 (ws ! 1) + ws ! 6 + ssig0 (ws ! 14) + ws ! 15) # ws)"

type_synonym hstate = "w32 \<times> w32 \<times> w32 \<times> w32 \<times> w32 \<times> w32 \<times> w32 \<times> w32"

fun round256 :: "hstate \<Rightarrow> w32 \<times> w32 \<Rightarrow> hstate" where
  "round256 (a, b, c, d, e, f, g, h) (k, w) =
     (let t1 = h + bsig1 e + Ch e f g + k + w;
          t2 = bsig0 a + Maj a b c
      in (t1 + t2, a, b, c, d + t1, e, f, g))"

fun add_state :: "hstate \<Rightarrow> hstate \<Rightarrow> hstate" where
  "add_state (a, b, c, d, e, f, g, h) (a', b', c', d', e', f', g', h') =
     (a + a', b + b', c + c', d + d', e + e', f + f', g + g', h + h')"

definition compress :: "hstate \<Rightarrow> byte list \<Rightarrow> hstate" where
  "compress hs block =
     (let ws = rev (schedule 48 (rev (words_of 16 block)))
      in add_state hs (foldl round256 hs (zip K256 ws)))"

fun blocks :: "nat \<Rightarrow> hstate \<Rightarrow> byte list \<Rightarrow> hstate" where
  "blocks 0 hs bs = hs"
| "blocks (Suc n) hs bs = blocks n (compress hs (take 64 bs)) (drop 64 bs)"

definition H0 :: hstate where
  "H0 = (0x6A09E667, 0xBB67AE85, 0x3C6EF372, 0xA54FF53A,
         0x510E527F, 0x9B05688C, 0x1F83D9AB, 0x5BE0CD19)"

definition sha256 :: "byte list \<Rightarrow> hstate" where
  "sha256 bs = (let p = pad bs in blocks (length p div 64) H0 p)"

text \<open>
  \<open>digest('hex')\<close>: eight lower-case hexadecimal digits for each word.
  \<open>update(uniqueString)\<close> hashes the UTF-8 encoding of the string, which for
  ASCII identifiers is one byte for each character, as here.
\<close>

definition hexdigit :: "w32 \<Rightarrow> char" where
  "hexdigit n = ''0123456789abcdef'' ! unat (n AND 0xF)"

definition hex32 :: "w32 \<Rightarrow> string" where
  "hex32 w = map (\<lambda>i. hexdigit (drop_bit (4 * i) w)) [7, 6, 5, 4, 3, 2, 1, 0]"

fun hex_state :: "hstate \<Rightarrow> string" where
  "hex_state (a, b, c, d, e, f, g, h) = concat (map hex32 [a, b, c, d, e, f, g, h])"

definition sha256_hex :: "string \<Rightarrow> string" where
  "sha256_hex s = hex_state (sha256 (map of_char s))"

subsection \<open>JavaScript values\<close>

text \<open>
  The values a document field, a request body or an expression of the
  controller can hold: \<open>undefined\<close> (also the value of an absent field),
  \<open>null\<close>, booleans, integral numbers (of a size \<open>String\<close> prints digit by
  digit, below \<open>10^21\<close>), strings and arrays.
\<close>

datatype jsval = JUndefined | JNull | JBool bool | JNum int | JStr string | JArr "jsval list"

fun dec_digits :: "nat \<Rightarrow> string" where
  "dec_digits n =
     (if n < 10 then [char_of (48 + n)]
      else dec_digits (n div 10) @ [char_of (48 + n mod 10)])"

declare dec_digits.simps [simp del]

definition int_to_string :: "int \<Rightarrow> string" where
  "int_to_string i = (if i < 0 then CHR ''-'' # dec_digits (nat (- i)) else dec_digits (nat i))"

fun join_comma :: "string list \<Rightarrow> string" where
  "join_comma [] = []"
| "join_comma [x] = x"
| "join_comma (x # y # zs) = x @ '','' @ join_comma (y # zs)"

text \<open>\<open>String(v)\<close>; an array joins its elements with commas, \<open>null\<close> and \<open>undefined\<close> elements as empty.\<close>

fun toStr :: "jsval \<Rightarrow> string" where
  "toStr JUndefined = ''undefined''"
| "toStr JNull = ''null''"
| "toStr (JBool b) = (if b then ''true'' else ''false'')"
| "toStr (JNum n) = int_to_string n"
| "toStr (JStr s) = s"
| "toStr (JArr xs) =
     join_comma (map (\<lambda>x. if x = JUndefined \<or> x = JNull then [] else toStr x) xs)"

fun truthy :: "jsval \<Rightarrow> bool" where
  "truthy JUndefined = False"
| "truthy JNull = False"
| "truthy (JBool b) = b"
| "truthy (JNum n) = (n \<noteq> 0)"
| "truthy (JStr s) = (s \<noteq> [])"
| "truthy (JArr xs) = True"

text \<open>\<open>a || b\<close>\<close>

definition js_or :: "jsval \<Rightarrow> jsval \<Rightarrow> jsval" where
  "js_or a b = (if truthy a then a else b)"

fun isArray :: "jsval \<Rightarrow> bool" where
  "isArray (JArr xs) = True"
| "isArray v = False"

text \<open>\<open>arr[i]\<close> on an array: \<open>undefined\<close> outside the array.\<close>

fun jsIndex :: "jsval \<Rightarrow> int \<Rightarrow> jsval" where
  "jsIndex (JArr xs) i = (if 0 \<le> i \<and> nat i < length xs then xs ! nat i else JUndefined)"
| "jsIndex v i = JUndefined"

text \<open>\<open>Array.prototype.find\<close> and \<open>findIndex\<close> on an array of strings.\<close>

definition jsFind :: "(string \<Rightarrow> bool) \<Rightarrow> string list \<Rightarrow> jsval" where
  "jsFind P xs = (case find P xs of None \<Rightarrow> JUndefined | Some x \<Rightarrow> JStr x)"

fun findIndex :: "('a \<Rightarrow> bool) \<Rightarrow> 'a list \<Rightarrow> int" where
  "findIndex P [] = - 1"
| "findIndex P (x # xs) =
     (if P x then 0 else (let i = findIndex P xs in if i < 0 then - 1 else i + 1))"

text \<open>\<open>String.prototype.trim\<close>, on the ASCII white space characters.\<close>

definition isSpace :: "char \<Rightarrow> bool" where
  "isSpace c \<longleftrightarrow> c \<in> set [CHR 0x09, CHR 0x0A, CHR 0x0B, CHR 0x0C, CHR 0x0D, CHR 0x20]"

definition trim :: "string \<Rightarrow> string" where
  "trim s = rev (dropWhile isSpace (rev (dropWhile isSpace s)))"

subsection \<open>generateChatRoomId\<close>

text \<open>
  \<open>[userId1, userId2].sort()\<close> is \<^const>\<open>sort\<close> on the two strings;
  \<open>hash.substring(0, 32)\<close> is \<^term>\<open>take 32\<close>.
\<close>

definition generateChatRoomId :: "string \<Rightarrow> string \<Rightarrow> string \<Rightarrow> string" where
  "generateChatRoomId userId1 userId2 productId =
     (let sortedIds = sort [userId1, userId2];
          uniqueString = sortedIds ! 0 @ ''_'' @ sortedIds ! 1 @ ''_'' @ productId;
          hash = sha256_hex uniqueString
      in take 32 hash)"

text \<open>The room identity function as section 4.1 of the specification words it.\<close>

definition derive_room_id_spec :: "string \<Rightarrow> string \<Rightarrow> string \<Rightarrow> string" where
  "derive_room_id_spec A B L = take 32 (sha256_hex (min A B @ ''_'' @ max A B @ ''_'' @ L))"

subsection \<open>Requests, documents and the store\<close>

text \<open>
  A Firestore document is a map from field names to values; an absent field
  reads as \<open>undefined\<close>. \<open>req.user\<close> is what the authentication middleware
  attached: the \<open>uid\<close> of a decoded Firebase token is a string.
\<close>

type_synonym doc = "string \<rightharpoonup> jsval"

definition field :: "doc \<Rightarrow> string \<Rightarrow> jsval" where
  "field d k = (case d k of None \<Rightarrow> JUndefined | Some v \<Rightarrow> v)"

record authUser =
  uid :: string
  displayName :: jsval
  name :: jsval

record request =
  user :: "authUser option"
  body :: doc
  params_id :: string

text \<open>
  A message document as \<open>postMessage\<close>, the only writer of the
  \<open>messages\<close> sub-collections, builds it.
\<close>

record message =
  m_chatRoomId :: string
  m_senderId :: string
  m_receiverId :: string
  m_text :: string
  m_timestamp :: string
  m_read :: bool

text \<open>
  The collections the controller touches. \<open>chatRooms\<close> is queried as a whole
  and so is an association list from document id to document; \<open>messages\<close>
  gives, for a room id, its sub-collection as pairs of message id and message.
\<close>

record store =
  products :: "string \<rightharpoonup> doc"
  users :: "string \<rightharpoonup> doc"
  chatRooms :: "(string \<times> doc) list"
  messages :: "string \<Rightarrow> (string \<times> message) list"

text \<open>
  An error is either a response status set by the handler together with the
  message of the \<open>Error\<close> it throws, or an exception thrown with no status set
  (a \<open>TypeError\<close>, or the store client refusing an argument).
\<close>

datatype error = HttpError nat string | Thrown string

text \<open>
  The Firestore client is a library, not code of the repository. Its
  \<open>collection(c).doc(path)\<close> validates the path before any request is made
  and throws unless the path is a non-empty string; a path with a \<open>/\<close>
  addresses a nested collection or is refused as well. The model covers
  document ids that are one path segment and lets \<open>doc\<close> throw for every
  other argument.
\<close>

definition validDocPath :: "string \<Rightarrow> bool" where
  "validDocPath p \<longleftrightarrow> p \<noteq> [] \<and> CHR ''/'' \<notin> set p"

definition invalidPath :: error where
  "invalidPath = Thrown ''Value for argument documentPath is not a valid resource path''"

text \<open>\<open>where('participants', 'array-contains', v)\<close> on one document field.\<close>

fun array_contains :: "jsval \<Rightarrow> jsval \<Rightarrow> bool" where
  "array_contains (JArr xs) v = (v \<in> set xs)"
| "array_contains x v = False"

text \<open>
  \<open>Array.isArray(data.participants) ? data.participants.map(p => String(p)) : []\<close>,
  which every handler computes.
\<close>

fun participantsOf :: "jsval \<Rightarrow> string list" where
  "participantsOf (JArr ps) = map toStr ps"
| "participantsOf v = []"

subsection \<open>getChatRooms\<close>

text \<open>The three checks of \<open>req.user\<close> that open every handler but \<open>deleteChatRoom\<close>.\<close>

definition notAuthenticated :: error where
  "notAuthenticated = HttpError 401 ''User not authenticated''"

definition checkUid :: "authUser \<Rightarrow> error + string" where
  "checkUid u =
     (if uid u = [] then Inl (HttpError 401 ''User ID not found - uid is required'')
      else if length (uid u) > 100
        then Inl (HttpError 401 ''Invalid user ID - uid appears to be a token string'')
      else Inr (uid u))"

text \<open>The callback of \<open>chatsAsBuyerSnapshot.docs.map\<close>, lines 65 to 85.\<close>

definition chatRoomEntry :: "string \<Rightarrow> string \<times> doc \<Rightarrow> doc" where
  "chatRoomEntry userId d =
     (let data = snd d;
          participants = participantsOf (field data ''participants'');
          userIdStr = userId;
          participantIndex = findIndex (\<lambda>i. i \<noteq> userIdStr) participants
      in ([''id'' \<mapsto> JStr (fst d)] ++ data)
           (''participants'' \<mapsto> JArr (map JStr participants),
            ''otherParticipantId'' \<mapsto> js_or (jsFind (\<lambda>i. i \<noteq> userIdStr) participants) JNull,
            ''otherParticipantName'' \<mapsto>
              (if truthy (field data ''participantNames'')
                    \<and> isArray (field data ''participantNames'') \<and> participantIndex \<ge> 0
               then jsIndex (field data ''participantNames'') participantIndex
               else JStr ''Unknown'')))"

text \<open>
  \<open>new Date(v).getTime()\<close> is the library's; the handler takes it as the
  parameter \<open>getTime\<close>. The query lists the matching documents by document
  id, and \<open>Array.prototype.sort\<close> is stable.
\<close>

definition roomTime :: "(jsval \<Rightarrow> int) \<Rightarrow> doc \<Rightarrow> int" where
  "roomTime getTime a =
     getTime (js_or (js_or (field a ''updatedAt'') (field a ''createdAt'')) (JNum 0))"

definition getChatRooms ::
  "(jsval \<Rightarrow> int) \<Rightarrow> store \<Rightarrow> request \<Rightarrow> (error + nat \<times> doc list) \<times> store" where
  "getChatRooms getTime s req =
     (case user req of
        None \<Rightarrow> (Inl notAuthenticated, s)
      | Some u \<Rightarrow>
          (case checkUid u of
             Inl e \<Rightarrow> (Inl e, s)
           | Inr userId \<Rightarrow>
               (let docs = filter (\<lambda>d. array_contains (field (snd d) ''participants'') (JStr userId))
                             (sort_key fst (chatRooms s));
                    rooms = map (chatRoomEntry userId) docs
                in (Inr (200, sort_key (\<lambda>a. - roomTime getTime a) rooms), s))))"

subsection \<open>createChatRoom\<close>

text \<open>The view returned for a room that exists, lines 160 to 181.\<close>

definition existingRoomView :: "string \<Rightarrow> string \<Rightarrow> doc \<Rightarrow> doc" where
  "existingRoomView buyerId chatRoomId existingData =
     (let participants = participantsOf (field existingData ''participants'');
          buyerIdStr = buyerId
      in ([''id'' \<mapsto> JStr chatRoomId] ++ existingData)
           (''participants'' \<mapsto> JArr (map JStr participants),
            ''otherParticipantId'' \<mapsto> js_or (jsFind (\<lambda>i. i \<noteq> buyerIdStr) participants) JNull))"

text \<open>The document of a new room, lines 196 to 213.\<close>

definition newChatRoom ::
  "string \<Rightarrow> string \<Rightarrow> jsval \<Rightarrow> jsval \<Rightarrow> string \<Rightarrow> doc \<Rightarrow> string \<Rightarrow> string \<Rightarrow> doc" where
  "newChatRoom buyerId sellerId buyerName sellerName productId product now1 now2 =
     [''participants'' \<mapsto> JArr [JStr buyerId, JStr sellerId],
      ''participantNames'' \<mapsto> JArr [buyerName, sellerName],
      ''productId'' \<mapsto> JStr productId,
      ''productTitle'' \<mapsto> js_or (field product ''title'') (JStr []),
      ''productImage'' \<mapsto>
         (case field product ''images'' of
            JArr (x # xs) \<Rightarrow> x
          | _ \<Rightarrow> JStr []),
      ''createdAt'' \<mapsto> JStr now1,
      ''updatedAt'' \<mapsto> JStr now2,
      ''lastMessage'' \<mapsto> JStr [],
      ''lastMessageSenderId'' \<mapsto> JNull,
      ''buyerId'' \<mapsto> JStr buyerId,
      ''sellerId'' \<mapsto> JStr sellerId,
      ''buyerName'' \<mapsto> buyerName,
      ''sellerName'' \<mapsto> sellerName]"

text \<open>
  The names of a new room, lines 184 to 192. The argument is the result of
  \<open>db.collection('users').doc(id).get()\<close>; \<open>data && data.name\<close> is \<open>null\<close>
  for a user document that does not exist.
\<close>

definition buyerNameOf :: "doc option \<Rightarrow> authUser \<Rightarrow> jsval" where
  "buyerNameOf buyerDoc u =
     (let buyerData = (case buyerDoc of None \<Rightarrow> JNull | Some d \<Rightarrow> field d ''name'')
      in js_or (js_or (js_or buyerData (displayName u)) (name u)) (JStr ''Buyer''))"

definition sellerNameOf :: "doc option \<Rightarrow> doc \<Rightarrow> jsval" where
  "sellerNameOf sellerDoc product =
     (let sellerData = (case sellerDoc of None \<Rightarrow> JNull | Some d \<Rightarrow> field d ''name'')
      in js_or (js_or sellerData (field product ''farmName'')) (JStr ''Seller''))"

text \<open>
  \<open>now1\<close> and \<open>now2\<close> are the two readings \<open>new Date().toISOString()\<close> of
  the clock. A \<open>productId\<close> of the body that is not a string is refused by
  \<open>doc\<close>.
\<close>

definition createChatRoom ::
  "store \<Rightarrow> request \<Rightarrow> string \<Rightarrow> string \<Rightarrow> (error + nat \<times> doc) \<times> store" where
  "createChatRoom s req now1 now2 =
     (case user req of
        None \<Rightarrow> (Inl notAuthenticated, s)
      | Some u \<Rightarrow>
          if \<not> truthy (field (body req) ''productId'')
            then (Inl (HttpError 400 ''Product ID is required''), s)
          else
          (case checkUid u of
             Inl e \<Rightarrow> (Inl e, s)
           | Inr buyerId \<Rightarrow>
          (case field (body req) ''productId'' of
             JStr productId \<Rightarrow>
               if \<not> validDocPath productId then (Inl invalidPath, s)
               else
               (case products s productId of
                  None \<Rightarrow> (Inl (HttpError 404 ''Product not found''), s)
                | Some product \<Rightarrow>
                    (let sellerId = toStr (js_or (field product ''userId'') (JStr []))
                     in if sellerId = buyerId
                          then (Inl (HttpError 400 ''You cannot start a chat for your own product''), s)
                        else
                        (let chatRoomId = generateChatRoomId buyerId sellerId productId
                         in if \<not> validDocPath chatRoomId then (Inl invalidPath, s)
                            else
                            (case map_of (chatRooms s) chatRoomId of
                               Some existingData \<Rightarrow>
                                 (Inr (200, existingRoomView buyerId chatRoomId existingData), s)
                             | None \<Rightarrow>
                                 if \<not> validDocPath buyerId then (Inl invalidPath, s)
                                 else if \<not> validDocPath sellerId then (Inl invalidPath, s)
                                 else
                                 (let buyerName = buyerNameOf (users s buyerId) u;
                                      sellerName = sellerNameOf (users s sellerId) product;
                                      room = newChatRoom buyerId sellerId buyerName sellerName
                                               productId product now1 now2
                                  in (Inr (201, ([''id'' \<mapsto> JStr chatRoomId] ++ room)
                                                  (''otherParticipantId'' \<mapsto> JStr sellerId)),
                                      s\<lparr>chatRooms := AList.update chatRoomId room (chatRooms s)\<rparr>))))))
           | _ \<Rightarrow> (Inl invalidPath, s))))"

subsection \<open>getChatRoomById\<close>

definition getChatRoomById :: "store \<Rightarrow> request \<Rightarrow> (error + nat \<times> doc) \<times> store" where
  "getChatRoomById s req =
     (case user req of
        None \<Rightarrow> (Inl notAuthenticated, s)
      | Some u \<Rightarrow>
          (case checkUid u of
             Inl e \<Rightarrow> (Inl e, s)
           | Inr userId \<Rightarrow>
               (let chatRoomId = params_id req
                in if \<not> validDocPath chatRoomId then (Inl invalidPath, s)
                   else
                   (case map_of (chatRooms s) chatRoomId of
                      None \<Rightarrow> (Inl (HttpError 404 ''Chat room not found''), s)
                    | Some chatRoomData \<Rightarrow>
                        (let participants = participantsOf (field chatRoomData ''participants'');
                             userIdStr = userId;
                             isParticipant = list_ex (\<lambda>participantId. participantId = userIdStr) participants
                         in if \<not> isParticipant
                              then (Inl (HttpError 403 ''Not authorized to access this chat room''), s)
                            else
                              (Inr (200, ([''id'' \<mapsto> JStr chatRoomId] ++ chatRoomData)
                                      (''participants'' \<mapsto> JArr (map JStr participants),
                                       ''otherParticipantId'' \<mapsto>
                                          js_or (jsFind (\<lambda>i. i \<noteq> userIdStr) participants) JNull)),
                               s))))))"

subsection \<open>postMessage\<close>

text \<open>
  \<open>messageId\<close> is the id \<open>add\<close> generates for the new message document;
  \<open>now1\<close> and \<open>now2\<close> are the clock readings for the message and for the
  room's \<open>updatedAt\<close>. \<open>text.trim\<close> on a truthy value that is not a string
  throws a \<open>TypeError\<close>.
\<close>

definition postMessage ::
  "store \<Rightarrow> request \<Rightarrow> string \<Rightarrow> string \<Rightarrow> string \<Rightarrow> (error + nat \<times> string \<times> message) \<times> store" where
  "postMessage s req messageId now1 now2 =
     (case user req of
        None \<Rightarrow> (Inl notAuthenticated, s)
      | Some u \<Rightarrow>
          (case checkUid u of
             Inl e \<Rightarrow> (Inl e, s)
           | Inr senderId \<Rightarrow>
               (let chatRoomId = params_id req;
                    text = field (body req) ''text''
                in if \<not> truthy text then (Inl (HttpError 400 ''Message text is required''), s)
                   else
                   (case text of
                      JStr tx \<Rightarrow>
                        if trim tx = [] then (Inl (HttpError 400 ''Message text is required''), s)
                        else if \<not> validDocPath chatRoomId then (Inl invalidPath, s)
                        else
                        (case map_of (chatRooms s) chatRoomId of
                           None \<Rightarrow> (Inl (HttpError 404 ''Chat room not found''), s)
                         | Some chatRoomData \<Rightarrow>
                             (let participants = participantsOf (field chatRoomData ''participants'');
                                  senderIdStr = senderId;
                                  isParticipant =
                                    list_ex (\<lambda>participantId. participantId = senderIdStr) participants
                              in if \<not> isParticipant
                                   then (Inl (HttpError 403 ''Not authorized to post in this chat room''), s)
                                 else
                                 (case jsFind (\<lambda>i. i \<noteq> senderIdStr) participants of
                                    JStr receiverId \<Rightarrow>
                                      if receiverId = []
                                        then (Inl (HttpError 400 ''Cannot determine receiver''), s)
                                      else
                                      (let newMessage =
                                             \<lparr>m_chatRoomId = chatRoomId, m_senderId = senderId,
                                              m_receiverId = receiverId, m_text = trim tx,
                                              m_timestamp = now1, m_read = False\<rparr>;
                                           s1 = s\<lparr>messages := (messages s)
                                                  (chatRoomId := messages s chatRoomId @ [(messageId, newMessage)])\<rparr>;
                                           s2 = s1\<lparr>chatRooms := AList.update chatRoomId
                                                  (chatRoomData(''lastMessage'' \<mapsto> JStr (trim tx),
                                                                ''lastMessageSenderId'' \<mapsto> JStr senderId,
                                                                ''updatedAt'' \<mapsto> JStr now2))
                                                  (chatRooms s1)\<rparr>
                                       in (Inr (201, (messageId, newMessage)), s2))
                                  | _ \<Rightarrow> (Inl (HttpError 400 ''Cannot determine receiver''), s))))
                    | _ \<Rightarrow> (Inl (Thrown ''TypeError: text.trim is not a function''), s)))))"

subsection \<open>getMessages\<close>

text \<open>
  \<open>orderBy('timestamp', 'asc')\<close>: Firestore lists the documents by the field
  and, among equal values, by document id. Before the membership check the
  handler logs \<open>chatRoomData.participants.map(...)\<close> whenever
  \<open>chatRoomData.participants\<close> is truthy (lines 438 and 439), which throws a
  \<open>TypeError\<close> for a value that is not an array.
\<close>

definition orderByTimestamp :: "(string \<times> message) list \<Rightarrow> (string \<times> message) list" where
  "orderByTimestamp ms = sort_key (\<lambda>m. (m_timestamp (snd m), fst m)) ms"

definition getMessages ::
  "store \<Rightarrow> request \<Rightarrow> (error + nat \<times> (string \<times> message) list) \<times> store" where
  "getMessages s req =
     (case user req of
        None \<Rightarrow> (Inl notAuthenticated, s)
      | Some u \<Rightarrow>
          (case checkUid u of
             Inl e \<Rightarrow> (Inl e, s)
           | Inr userId \<Rightarrow>
               (let chatRoomId = params_id req
                in if \<not> validDocPath chatRoomId then (Inl invalidPath, s)
                   else
                   (case map_of (chatRooms s) chatRoomId of
                      None \<Rightarrow> (Inl (HttpError 404 ''Chat room not found''), s)
                    | Some chatRoomData \<Rightarrow>
                        if truthy (field chatRoomData ''participants'')
                             \<and> \<not> isArray (field chatRoomData ''participants'')
                          then (Inl (Thrown ''TypeError: chatRoomData.participants.map is not a function''), s)
                        else
                        (let participants = participantsOf (field chatRoomData ''participants'');
                             userIdStr = userId;
                             isParticipant = list_ex (\<lambda>participantId. participantId = userIdStr) participants
                         in if \<not> isParticipant
                              then (Inl (HttpError 403 ''Not authorized to access this chat room''), s)
                            else (Inr (200, orderByTimestamp (messages s chatRoomId)), s))))))"

subsection \<open>deleteChatRoom\<close>

definition deleteChatRoom :: "store \<Rightarrow> request \<Rightarrow> (error + nat) \<times> store" where
  "deleteChatRoom s req =
     (let chatRoomId = params_id req
      in if \<not> validDocPath chatRoomId then (Inl invalidPath, s)
         else (Inr 200, s\<lparr>chatRooms := AList.delete chatRoomId (chatRooms s)\<rparr>))"

subsection \<open>Names used in the statements\<close>

text \<open>The room document after the \<open>update\<close> call of \<open>postMessage\<close>.\<close>

definition roomAfterPost :: "doc \<Rightarrow> string \<Rightarrow> string \<Rightarrow> string \<Rightarrow> doc" where
  "roomAfterPost d tx senderId now2 =
     d(''lastMessage'' \<mapsto> JStr (trim tx), ''lastMessageSenderId'' \<mapsto> JStr senderId,
       ''updatedAt'' \<mapsto> JStr now2)"

text \<open>
  The end-to-end scenario of the specification: user \<open>u1\<close>, a listing \<open>p1\<close>
  owned by \<open>u2\<close>, and the room of \<open>u1\<close> and \<open>u2\<close> about \<open>p1\<close>.
\<close>

definition scenario_user :: "string \<Rightarrow> authUser" where
  "scenario_user z = \<lparr>uid = z, displayName = JUndefined, name = JUndefined\<rparr>"

definition scenario_request :: "string \<Rightarrow> doc \<Rightarrow> string \<Rightarrow> request" where
  "scenario_request z b rid = \<lparr>user = Some (scenario_user z), body = b, params_id = rid\<rparr>"

definition scenario_listing :: doc where
  "scenario_listing = [''userId'' \<mapsto> JStr ''u2'', ''title'' \<mapsto> JStr ''compost'']"

definition scenario_store0 :: store where
  "scenario_store0 =
     \<lparr>products = [''p1'' \<mapsto> scenario_listing], users = Map.empty, chatRooms = [],
      messages = (\<lambda>r. [])\<rparr>"

definition scenario_roomId :: string where
  "scenario_roomId = generateChatRoomId ''u1'' ''u2'' ''p1''"

definition scenario_room :: doc where
  "scenario_room =
     newChatRoom ''u1'' ''u2'' (JStr ''Buyer'') (JStr ''Seller'') ''p1'' scenario_listing
       ''2024-01-01T00:00:00.000Z'' ''2024-01-01T00:00:00.000Z''"

definition scenario_store1 :: store where
  "scenario_store1 = scenario_store0\<lparr>chatRooms := [(scenario_roomId, scenario_room)]\<rparr>"

text \<open>
  The invariant of a room's \<open>participants\<close> in section 3 of the
  specification: exactly two entries, both non-empty strings, distinct.
\<close>

fun participantsInv :: "jsval \<Rightarrow> bool" where
  "participantsInv (JArr [JStr a, JStr b]) = (a \<noteq> [] \<and> b \<noteq> [] \<and> a \<noteq> b)"
| "participantsInv v = False"

definition roomsInv :: "store \<Rightarrow> bool" where
  "roomsInv s = list_all (\<lambda>r. participantsInv (field (snd r) ''participants'')) (chatRooms s)"

text \<open>One reading of the clock, taken by two posts in the same millisecond.\<close>

definition same_instant :: string where
  "same_instant = ''2024-01-01T00:00:01.000Z''"

text \<open>
  Rooms as older or hand-edited data may hold them: \<open>solo\<close> lists the same
  identifier twice, \<open>empty\<close> has no participant, and \<open>short\<close> has one name
  for two participants.
\<close>

definition legacy_store :: store where
  "legacy_store =
     \<lparr>products = Map.empty, users = Map.empty,
      chatRooms =
        [(''solo'', [''participants'' \<mapsto> JArr [JStr ''u1'', JStr ''u1'']]),
         (''empty'', [''participants'' \<mapsto> JArr []]),
         (''short'', [''participants'' \<mapsto> JArr [JStr ''u1'', JStr ''u2''],
                      ''participantNames'' \<mapsto> JArr [JStr ''Alice'']])],
      messages = (\<lambda>r. [])\<rparr>"


text \<open>
  A store whose listing \<open>p1\<close> has no \<open>userId\<close>, and a store whose one room
  holds its participants as numbers.
\<close>

definition ownerless_store :: store where
  "ownerless_store =
     \<lparr>products = [''p1'' \<mapsto> [''title'' \<mapsto> JStr ''compost'']], users = Map.empty,
      chatRooms = [], messages = (\<lambda>r. [])\<rparr>"


section \<open>Properties\<close>

subsection \<open>The room identifier\<close>

text \<open>
  The model of SHA-256 on the one-block and the two-block test message of
  FIPS 180-4, and the room identifier of the scenario, computed by rewriting
  with the definitions.
\<close>

lemma sha256_hex_abc:
  "sha256_hex ''abc'' = ''ba7816bf8f01cfea414140de5dae2223b00361a396177a9cb410ff61f20015ad''"
  by code_simp

lemma sha256_hex_two_blocks:
  "sha256_hex ''abcdbcdecdefdefgefghfghighijhijkijkljklmklmnlmnomnopnopq'' =
     ''248d6a61d20638b8e5c026930c3e6039a33ce45964ff2167f6ecedd419db06c1''"
  by code_simp

lemma scenario_roomId_value: "scenario_roomId = ''fc8d88cee97c4827188eacdf6d993c84''"
  by code_simp

lemma length_hex32: "length (hex32 w) = 8"
  by (simp add: hex32_def)

lemma length_hex_state: "length (hex_state hs) = 64"
  by (cases hs rule: hex_state.cases) (simp add: length_hex32)

lemma length_sha256_hex: "length (sha256_hex s) = 64"
  by (simp add: sha256_hex_def length_hex_state)

lemma hexdigit_range: "hexdigit n \<in> set ''0123456789abcdef''"
proof -
  have "unat (n AND 0xF) \<le> unat (0xF :: w32)"
    by (rule word_and_le1 [THEN word_le_nat_alt [THEN iffD1]])
  then have "unat (n AND 0xF) < length ''0123456789abcdef''"
    by simp
  then show ?thesis
    unfolding hexdigit_def by (rule nth_mem)
qed

lemma slash_not_hexdigit: "CHR ''/'' \<noteq> hexdigit n"
  using hexdigit_range [of n] by auto

lemma hex32_no_slash: "CHR ''/'' \<notin> set (hex32 w)"
  by (simp add: hex32_def slash_not_hexdigit)

lemma hex_state_no_slash: "CHR ''/'' \<notin> set (hex_state hs)"
  by (cases hs rule: hex_state.cases) (simp add: hex32_no_slash)

lemma sha256_hex_no_slash: "CHR ''/'' \<notin> set (sha256_hex s)"
  by (simp add: sha256_hex_def hex_state_no_slash)

lemma length_generateChatRoomId: "length (generateChatRoomId a b l) = 32"
  by (simp add: generateChatRoomId_def Let_def length_sha256_hex)

lemma validDocPath_generateChatRoomId: "validDocPath (generateChatRoomId a b l)"
proof -
  have "generateChatRoomId a b l \<noteq> []"
    using length_generateChatRoomId [of a b l] by auto
  moreover have "CHR ''/'' \<notin> set (generateChatRoomId a b l)"
    using sha256_hex_no_slash by (auto simp: generateChatRoomId_def Let_def dest: in_set_takeD)
  ultimately show ?thesis
    by (simp add: validDocPath_def)
qed

text \<open>
  C1. The room identifier does not depend on the order of the two
  participants: \<open>generateChatRoomId A B L = generateChatRoomId B A L\<close> for
  all strings \<open>A\<close>, \<open>B\<close> and \<open>L\<close>.
\<close>

theorem generateChatRoomId_commutative:
  "generateChatRoomId A B L = generateChatRoomId B A L"
proof (cases "A \<le> B")
  case True
  then show ?thesis
    by (cases "A = B") (auto simp: generateChatRoomId_def)
next
  case False
  then have "B \<le> A" by simp
  with False show ?thesis
    by (auto simp: generateChatRoomId_def)
qed

theorem generateChatRoomId_commutative_witness:
  "generateChatRoomId ''u1'' ''u2'' ''p1'' = generateChatRoomId ''u2'' ''u1'' ''p1''"
  by (rule generateChatRoomId_commutative)

text \<open>
  C6. The room identifier is the first 32 hexadecimal characters of the
  SHA-256 digest of \<open>min(A,B) + "_" + max(A,B) + "_" + L\<close>; it is a function
  of its three inputs, and it is 32 characters long whatever the lengths of
  the inputs are.
\<close>

theorem generateChatRoomId_reference:
  "generateChatRoomId A B L = derive_room_id_spec A B L
   \<and> derive_room_id_spec A B L = take 32 (sha256_hex (min A B @ ''_'' @ max A B @ ''_'' @ L))
   \<and> length (generateChatRoomId A B L) = 32"
proof -
  have "generateChatRoomId A B L = derive_room_id_spec A B L"
    by (auto simp: generateChatRoomId_def derive_room_id_spec_def min_def max_def)
  moreover have "length (generateChatRoomId A B L) = 32"
    by (rule length_generateChatRoomId)
  ultimately show ?thesis
    by (simp add: derive_room_id_spec_def)
qed

subsection \<open>What each handler returns for an authenticated subject\<close>

lemma getChatRoomById_found:
  assumes "user req = Some u" and "checkUid u = Inr Z" and "validDocPath (params_id req)"
    and "map_of (chatRooms s) (params_id req) = Some d"
  shows "getChatRoomById s req =
     (if Z \<in> set (participantsOf (field d ''participants''))
      then (Inr (200, existingRoomView Z (params_id req) d), s)
      else (Inl (HttpError 403 ''Not authorized to access this chat room''), s))"
  using assms by (simp add: getChatRoomById_def existingRoomView_def Let_def list_ex_iff)

lemma getChatRoomById_absent:
  assumes "user req = Some u" and "checkUid u = Inr Z" and "validDocPath (params_id req)"
    and "map_of (chatRooms s) (params_id req) = None"
  shows "getChatRoomById s req = (Inl (HttpError 404 ''Chat room not found''), s)"
  using assms by (simp add: getChatRoomById_def)

lemma getMessages_found:
  assumes "user req = Some u" and "checkUid u = Inr Z" and "validDocPath (params_id req)"
    and "map_of (chatRooms s) (params_id req) = Some d"
    and "isArray (field d ''participants'')"
  shows "getMessages s req =
     (if Z \<in> set (participantsOf (field d ''participants''))
      then (Inr (200, orderByTimestamp (messages s (params_id req))), s)
      else (Inl (HttpError 403 ''Not authorized to access this chat room''), s))"
  using assms by (simp add: getMessages_def Let_def list_ex_iff)

lemma postMessage_found:
  assumes "user req = Some u" and "checkUid u = Inr Z" and "validDocPath (params_id req)"
    and "map_of (chatRooms s) (params_id req) = Some d"
    and "field (body req) ''text'' = JStr tx" and "trim tx \<noteq> []"
  shows "postMessage s req mid t1 t2 =
     (if Z \<notin> set (participantsOf (field d ''participants''))
        then (Inl (HttpError 403 ''Not authorized to post in this chat room''), s)
      else (case find (\<lambda>i. i \<noteq> Z) (participantsOf (field d ''participants'')) of
              None \<Rightarrow> (Inl (HttpError 400 ''Cannot determine receiver''), s)
            | Some r \<Rightarrow>
                if r = [] then (Inl (HttpError 400 ''Cannot determine receiver''), s)
                else (Inr (201, mid, \<lparr>m_chatRoomId = params_id req, m_senderId = Z, m_receiverId = r,
                                      m_text = trim tx, m_timestamp = t1, m_read = False\<rparr>),
                      s\<lparr>messages := (messages s)(params_id req := messages s (params_id req) @
                            [(mid, \<lparr>m_chatRoomId = params_id req, m_senderId = Z, m_receiverId = r,
                                      m_text = trim tx, m_timestamp = t1, m_read = False\<rparr>)]),
                         chatRooms := AList.update (params_id req) (roomAfterPost d tx Z t2) (chatRooms s)\<rparr>)))"
proof -
  have "tx \<noteq> []" using assms(6) by (auto simp: trim_def)
  then show ?thesis
    using assms
    by (simp add: postMessage_def Let_def list_ex_iff jsFind_def roomAfterPost_def
        split: option.splits)
qed


lemmas scenario_defs =
  scenario_user_def scenario_request_def scenario_listing_def scenario_store0_def
  scenario_room_def scenario_store1_def

lemma validDocPath_scenario_roomId: "validDocPath scenario_roomId"
  by (simp add: scenario_roomId_def validDocPath_generateChatRoomId)

lemma field_upd_same: "field (m(k \<mapsto> v)) k = v"
  by (simp add: field_def)

lemma scenario_room_participants:
  "field scenario_room ''participants'' = JArr [JStr ''u1'', JStr ''u2'']"
  by (simp add: scenario_room_def newChatRoom_def field_def)

lemma scenario_store1_room: "map_of (chatRooms scenario_store1) scenario_roomId = Some scenario_room"
  by (simp add: scenario_store1_def)

lemma scenario_request_sel:
  "user (scenario_request z b rid) = Some (scenario_user z)"
  "body (scenario_request z b rid) = b"
  "params_id (scenario_request z b rid) = rid"
  by (simp_all add: scenario_request_def)

lemma checkUid_scenario:
  "checkUid (scenario_user ''u1'') = Inr ''u1''"
  "checkUid (scenario_user ''u2'') = Inr ''u2''"
  "checkUid (scenario_user ''u3'') = Inr ''u3''"
  by (simp_all add: checkUid_def scenario_user_def)

lemma trim_hello: "trim ''hello'' = ''hello''"
  by (simp add: trim_def isSpace_def)

lemma validDocPath_solo: "validDocPath ''solo''"
  by (simp add: validDocPath_def)

text \<open>
  C4. Self-chat is rejected: when the subject is the owner of the listing
  (\<open>String(product.userId || '')\<close>), \<open>createChatRoom\<close> fails with status 400
  and leaves the store as it was, so no room is created.
\<close>

theorem self_chat_rejected:
  assumes "user req = Some u" and "checkUid u = Inr subject"
    and "field (body req) ''productId'' = JStr productId" and "validDocPath productId"
    and "products s productId = Some product"
    and "toStr (js_or (field product ''userId'') (JStr [])) = subject"
  shows "createChatRoom s req now1 now2 =
           (Inl (HttpError 400 ''You cannot start a chat for your own product''), s)"
proof -
  have "productId \<noteq> []" using assms(4) by (simp add: validDocPath_def)
  then show ?thesis
    using assms by (simp add: createChatRoom_def)
qed

theorem self_chat_rejected_witness:
  "createChatRoom scenario_store0 (scenario_request ''u2'' [''productId'' \<mapsto> JStr ''p1''] [])
       ''2024-01-01T00:00:00.000Z'' ''2024-01-01T00:00:00.001Z'' =
     (Inl (HttpError 400 ''You cannot start a chat for your own product''), scenario_store0)"
  using self_chat_rejected [of "scenario_request ''u2'' [''productId'' \<mapsto> JStr ''p1''] []"
      "scenario_user ''u2''" "''u2''" "''p1''" scenario_store0 scenario_listing]
  by (simp add: scenario_defs checkUid_def field_def js_or_def validDocPath_def)

text \<open>
  C3. The membership gate. For a validated subject \<open>Z\<close> and a room id:
  a room that does not exist gives 404; for a room whose participants are
  \<open>[x, y]\<close>, compared as strings, \<open>getChatRoomById\<close> fails with 403 when
  \<open>Z\<close> is neither of them and succeeds when it is one of them, and
  \<open>getMessages\<close> and \<open>postMessage\<close> answer 403 in exactly the same case.
\<close>

theorem membership_gate:
  assumes "user req = Some u" and "checkUid u = Inr Z" and "validDocPath (params_id req)"
  shows "(map_of (chatRooms s) (params_id req) = None \<longrightarrow>
            getChatRoomById s req = (Inl (HttpError 404 ''Chat room not found''), s))
       \<and> (map_of (chatRooms s) (params_id req) = Some d \<and> field d ''participants'' = JArr [x, y] \<longrightarrow>
            (Z \<notin> {toStr x, toStr y} \<longrightarrow>
                getChatRoomById s req =
                  (Inl (HttpError 403 ''Not authorized to access this chat room''), s)
              \<and> getMessages s req =
                  (Inl (HttpError 403 ''Not authorized to access this chat room''), s)
              \<and> (field (body req) ''text'' = JStr tx \<and> trim tx \<noteq> [] \<longrightarrow>
                   postMessage s req mid t1 t2 =
                     (Inl (HttpError 403 ''Not authorized to post in this chat room''), s)))
          \<and> (Z \<in> {toStr x, toStr y} \<longrightarrow>
                (\<exists>v. getChatRoomById s req = (Inr (200, v), s))
              \<and> (\<exists>ms. getMessages s req = (Inr (200, ms), s))
              \<and> fst (postMessage s req mid t1 t2) \<noteq>
                  Inl (HttpError 403 ''Not authorized to post in this chat room'')))"
proof (intro conjI impI)
  assume "map_of (chatRooms s) (params_id req) = None"
  then show "getChatRoomById s req = (Inl (HttpError 404 ''Chat room not found''), s)"
    using getChatRoomById_absent [OF assms] by simp
next
  assume r: "map_of (chatRooms s) (params_id req) = Some d \<and> field d ''participants'' = JArr [x, y]"
    and z: "Z \<notin> {toStr x, toStr y}"
  show "getChatRoomById s req = (Inl (HttpError 403 ''Not authorized to access this chat room''), s)"
    using r z getChatRoomById_found [OF assms, of s d] by simp
  show "getMessages s req = (Inl (HttpError 403 ''Not authorized to access this chat room''), s)"
    using r z getMessages_found [OF assms, of s d] by simp
  assume "field (body req) ''text'' = JStr tx \<and> trim tx \<noteq> []"
  then show "postMessage s req mid t1 t2 =
      (Inl (HttpError 403 ''Not authorized to post in this chat room''), s)"
    using r z postMessage_found [OF assms, of s d tx mid t1 t2] by simp
next
  assume r: "map_of (chatRooms s) (params_id req) = Some d \<and> field d ''participants'' = JArr [x, y]"
    and z: "Z \<in> {toStr x, toStr y}"
  show "\<exists>v. getChatRoomById s req = (Inr (200, v), s)"
    using r z getChatRoomById_found [OF assms, of s d] by auto
  show "\<exists>ms. getMessages s req = (Inr (200, ms), s)"
    using r z getMessages_found [OF assms, of s d] by auto
  show "fst (postMessage s req mid t1 t2) \<noteq>
      Inl (HttpError 403 ''Not authorized to post in this chat room'')"
    using r z assms
    by (auto simp: postMessage_def Let_def list_ex_iff split: jsval.splits option.splits)
qed


theorem membership_gate_witness:
  "getChatRoomById scenario_store0 (scenario_request ''u1'' Map.empty scenario_roomId) =
     (Inl (HttpError 404 ''Chat room not found''), scenario_store0)
   \<and> getChatRoomById scenario_store1 (scenario_request ''u3'' Map.empty scenario_roomId) =
     (Inl (HttpError 403 ''Not authorized to access this chat room''), scenario_store1)
   \<and> getMessages scenario_store1 (scenario_request ''u3'' Map.empty scenario_roomId) =
     (Inl (HttpError 403 ''Not authorized to access this chat room''), scenario_store1)
   \<and> postMessage scenario_store1 (scenario_request ''u3'' [''text'' \<mapsto> JStr ''hi''] scenario_roomId)
        ''m1'' ''t1'' ''t2'' =
     (Inl (HttpError 403 ''Not authorized to post in this chat room''), scenario_store1)
   \<and> (\<exists>v. getChatRoomById scenario_store1 (scenario_request ''u1'' Map.empty scenario_roomId) =
          (Inr (200, v), scenario_store1))
   \<and> (\<exists>v. getChatRoomById scenario_store1 (scenario_request ''u2'' Map.empty scenario_roomId) =
          (Inr (200, v), scenario_store1))"
proof -
  have sp: "trim ''hi'' \<noteq> []"
    by (simp add: trim_def isSpace_def)
  have "getChatRoomById scenario_store0 (scenario_request ''u1'' Map.empty scenario_roomId) =
     (Inl (HttpError 404 ''Chat room not found''), scenario_store0)"
    using membership_gate [of "scenario_request ''u1'' Map.empty scenario_roomId"
        "scenario_user ''u1''" "''u1''" scenario_store0]
    by (simp add: scenario_request_sel checkUid_scenario validDocPath_scenario_roomId
        scenario_store0_def)
  moreover have "getChatRoomById scenario_store1 (scenario_request ''u3'' Map.empty scenario_roomId) =
     (Inl (HttpError 403 ''Not authorized to access this chat room''), scenario_store1)
   \<and> getMessages scenario_store1 (scenario_request ''u3'' Map.empty scenario_roomId) =
     (Inl (HttpError 403 ''Not authorized to access this chat room''), scenario_store1)"
    using membership_gate [of "scenario_request ''u3'' Map.empty scenario_roomId"
        "scenario_user ''u3''" "''u3''" scenario_store1 scenario_room "JStr ''u1''" "JStr ''u2''"]
    by (simp add: scenario_request_sel checkUid_scenario validDocPath_scenario_roomId
        scenario_store1_room scenario_room_participants)
  moreover have "postMessage scenario_store1
        (scenario_request ''u3'' [''text'' \<mapsto> JStr ''hi''] scenario_roomId) ''m1'' ''t1'' ''t2'' =
     (Inl (HttpError 403 ''Not authorized to post in this chat room''), scenario_store1)"
    using sp membership_gate [of "scenario_request ''u3'' [''text'' \<mapsto> JStr ''hi''] scenario_roomId"
        "scenario_user ''u3''" "''u3''" scenario_store1 scenario_room "JStr ''u1''" "JStr ''u2''"
        "''hi''" "''m1''" "''t1''" "''t2''"]
    by (simp add: scenario_request_sel checkUid_scenario validDocPath_scenario_roomId
        scenario_store1_room scenario_room_participants field_upd_same)
  moreover have "\<exists>v. getChatRoomById scenario_store1 (scenario_request ''u1'' Map.empty scenario_roomId) =
          (Inr (200, v), scenario_store1)"
    using membership_gate [of "scenario_request ''u1'' Map.empty scenario_roomId"
        "scenario_user ''u1''" "''u1''" scenario_store1 scenario_room "JStr ''u1''" "JStr ''u2''"]
    by (simp add: scenario_request_sel checkUid_scenario validDocPath_scenario_roomId
        scenario_store1_room scenario_room_participants)
  moreover have "\<exists>v. getChatRoomById scenario_store1 (scenario_request ''u2'' Map.empty scenario_roomId) =
          (Inr (200, v), scenario_store1)"
    using membership_gate [of "scenario_request ''u2'' Map.empty scenario_roomId"
        "scenario_user ''u2''" "''u2''" scenario_store1 scenario_room "JStr ''u1''" "JStr ''u2''"]
    by (simp add: scenario_request_sel checkUid_scenario validDocPath_scenario_roomId
        scenario_store1_room scenario_room_participants)
  ultimately show ?thesis by simp
qed

text \<open>
  C5. Receiver resolution. In a room whose participants are the two distinct
  identifiers \<open>X\<close> and \<open>Y\<close>, a message posted by \<open>X\<close> is written with
  receiver \<open>Y\<close>, and one posted by \<open>Y\<close> with receiver \<open>X\<close>. When no
  participant differs from the sender, the call fails with status 400,
  "Cannot determine receiver", and writes nothing.
\<close>

theorem receiver_resolution:
  assumes "user req = Some u" and "checkUid u = Inr sender" and "validDocPath (params_id req)"
    and "map_of (chatRooms s) (params_id req) = Some d"
    and "field (body req) ''text'' = JStr tx" and "trim tx \<noteq> []"
  shows "(field d ''participants'' = JArr [x, y] \<and> toStr x \<noteq> toStr y
            \<and> toStr x \<noteq> [] \<and> toStr y \<noteq> [] \<and> sender \<in> {toStr x, toStr y} \<longrightarrow>
           (\<exists>m s'. postMessage s req mid t1 t2 = (Inr (201, mid, m), s')
              \<and> m_senderId m = sender
              \<and> m_receiverId m = (if sender = toStr x then toStr y else toStr x)
              \<and> messages s' (params_id req) = messages s (params_id req) @ [(mid, m)]))
       \<and> (sender \<in> set (participantsOf (field d ''participants''))
            \<and> (\<forall>p \<in> set (participantsOf (field d ''participants'')). p = sender) \<longrightarrow>
           postMessage s req mid t1 t2 = (Inl (HttpError 400 ''Cannot determine receiver''), s))"
proof (intro conjI impI)
  assume "field d ''participants'' = JArr [x, y] \<and> toStr x \<noteq> toStr y
            \<and> toStr x \<noteq> [] \<and> toStr y \<noteq> [] \<and> sender \<in> {toStr x, toStr y}"
  then show "\<exists>m s'. postMessage s req mid t1 t2 = (Inr (201, mid, m), s')
              \<and> m_senderId m = sender
              \<and> m_receiverId m = (if sender = toStr x then toStr y else toStr x)
              \<and> messages s' (params_id req) = messages s (params_id req) @ [(mid, m)]"
    using postMessage_found [OF assms, of mid t1 t2] by auto
next
  assume a: "sender \<in> set (participantsOf (field d ''participants''))
            \<and> (\<forall>p \<in> set (participantsOf (field d ''participants'')). p = sender)"
  then have "find (\<lambda>i. i \<noteq> sender) (participantsOf (field d ''participants'')) = None"
    by (auto simp: find_None_iff)
  with a show "postMessage s req mid t1 t2 = (Inl (HttpError 400 ''Cannot determine receiver''), s)"
    using postMessage_found [OF assms, of mid t1 t2] by simp
qed

theorem receiver_resolution_witness:
  "(\<exists>m s'. postMessage scenario_store1
        (scenario_request ''u1'' [''text'' \<mapsto> JStr ''hello''] scenario_roomId)
        ''m1'' ''2024-01-01T00:00:01.000Z'' ''2024-01-01T00:00:01.001Z'' = (Inr (201, ''m1'', m), s')
      \<and> m_senderId m = ''u1'' \<and> m_receiverId m = ''u2'')
   \<and> (\<exists>m s'. postMessage scenario_store1
        (scenario_request ''u2'' [''text'' \<mapsto> JStr ''hello''] scenario_roomId)
        ''m1'' ''2024-01-01T00:00:01.000Z'' ''2024-01-01T00:00:01.001Z'' = (Inr (201, ''m1'', m), s')
      \<and> m_senderId m = ''u2'' \<and> m_receiverId m = ''u1'')
   \<and> postMessage legacy_store (scenario_request ''u1'' [''text'' \<mapsto> JStr ''hello''] ''solo'')
        ''m1'' ''2024-01-01T00:00:01.000Z'' ''2024-01-01T00:00:01.001Z'' =
       (Inl (HttpError 400 ''Cannot determine receiver''), legacy_store)"
proof -
  have "\<exists>m s'. postMessage scenario_store1
        (scenario_request ''u1'' [''text'' \<mapsto> JStr ''hello''] scenario_roomId)
        ''m1'' ''2024-01-01T00:00:01.000Z'' ''2024-01-01T00:00:01.001Z'' = (Inr (201, ''m1'', m), s')
      \<and> m_senderId m = ''u1'' \<and> m_receiverId m = ''u2''"
    using receiver_resolution [of "scenario_request ''u1'' [''text'' \<mapsto> JStr ''hello''] scenario_roomId"
        "scenario_user ''u1''" "''u1''" scenario_store1 scenario_room "''hello''"
        "JStr ''u1''" "JStr ''u2''" "''m1''" "''2024-01-01T00:00:01.000Z''" "''2024-01-01T00:00:01.001Z''"]
    by (simp add: scenario_request_sel checkUid_scenario validDocPath_scenario_roomId
        scenario_store1_room scenario_room_participants field_upd_same trim_hello) blast
  moreover have "\<exists>m s'. postMessage scenario_store1
        (scenario_request ''u2'' [''text'' \<mapsto> JStr ''hello''] scenario_roomId)
        ''m1'' ''2024-01-01T00:00:01.000Z'' ''2024-01-01T00:00:01.001Z'' = (Inr (201, ''m1'', m), s')
      \<and> m_senderId m = ''u2'' \<and> m_receiverId m = ''u1''"
    using receiver_resolution [of "scenario_request ''u2'' [''text'' \<mapsto> JStr ''hello''] scenario_roomId"
        "scenario_user ''u2''" "''u2''" scenario_store1 scenario_room "''hello''"
        "JStr ''u1''" "JStr ''u2''" "''m1''" "''2024-01-01T00:00:01.000Z''" "''2024-01-01T00:00:01.001Z''"]
    by (simp add: scenario_request_sel checkUid_scenario validDocPath_scenario_roomId
        scenario_store1_room scenario_room_participants field_upd_same trim_hello) blast
  moreover have "postMessage legacy_store (scenario_request ''u1'' [''text'' \<mapsto> JStr ''hello''] ''solo'')
        ''m1'' ''2024-01-01T00:00:01.000Z'' ''2024-01-01T00:00:01.001Z'' =
       (Inl (HttpError 400 ''Cannot determine receiver''), legacy_store)"
    using receiver_resolution [of "scenario_request ''u1'' [''text'' \<mapsto> JStr ''hello''] ''solo''"
        "scenario_user ''u1''" "''u1''" legacy_store "[''participants'' \<mapsto> JArr [JStr ''u1'', JStr ''u1'']]"
        "''hello''" _ _ "''m1''" "''2024-01-01T00:00:01.000Z''" "''2024-01-01T00:00:01.001Z''"]
    by (simp add: scenario_request_sel checkUid_scenario validDocPath_solo legacy_store_def
        field_upd_same trim_hello)
  ultimately show ?thesis by blast
qed

subsection \<open>Finding or creating a room\<close>

lemma createChatRoom_reached:
  assumes "user req = Some u" and "checkUid u = Inr buyerId"
    and "field (body req) ''productId'' = JStr productId" and "validDocPath productId"
    and "products s productId = Some product"
    and "toStr (js_or (field product ''userId'') (JStr [])) = sellerId"
    and "sellerId \<noteq> buyerId"
  shows "createChatRoom s req now1 now2 =
     (case map_of (chatRooms s) (generateChatRoomId buyerId sellerId productId) of
        Some existingData \<Rightarrow>
          (Inr (200, existingRoomView buyerId (generateChatRoomId buyerId sellerId productId)
                       existingData), s)
      | None \<Rightarrow>
          if \<not> validDocPath buyerId \<or> \<not> validDocPath sellerId then (Inl invalidPath, s)
          else (Inr (201, ([''id'' \<mapsto> JStr (generateChatRoomId buyerId sellerId productId)] ++
                           newChatRoom buyerId sellerId (buyerNameOf (users s buyerId) u)
                             (sellerNameOf (users s sellerId) product) productId product now1 now2)
                          (''otherParticipantId'' \<mapsto> JStr sellerId)),
                s\<lparr>chatRooms := AList.update (generateChatRoomId buyerId sellerId productId)
                     (newChatRoom buyerId sellerId (buyerNameOf (users s buyerId) u)
                        (sellerNameOf (users s sellerId) product) productId product now1 now2)
                     (chatRooms s)\<rparr>))"
proof -
  have "productId \<noteq> []" using assms(4) by (simp add: validDocPath_def)
  then show ?thesis
    using assms
    by (simp add: createChatRoom_def Let_def validDocPath_generateChatRoomId split: option.splits)
qed

lemma existingRoomView_fields:
  "k \<noteq> ''participants'' \<Longrightarrow> k \<noteq> ''otherParticipantId'' \<Longrightarrow> d k \<noteq> None \<Longrightarrow>
     existingRoomView b rid d k = d k"
  by (auto simp: existingRoomView_def Let_def map_add_def split: option.splits)

lemma existingRoomView_id:
  "existingRoomView b rid d ''id'' = (case d ''id'' of None \<Rightarrow> Some (JStr rid) | Some v \<Rightarrow> Some v)"
  by (simp add: existingRoomView_def Let_def map_add_def split: option.splits)

lemma existingRoomView_participants:
  "existingRoomView b rid d ''participants'' =
     Some (JArr (map JStr (participantsOf (field d ''participants''))))"
  by (simp add: existingRoomView_def Let_def)

lemma newChatRoom_participants:
  "newChatRoom b sl bn sn pid pr n1 n2 ''participants'' = Some (JArr [JStr b, JStr sl])"
  by (simp add: newChatRoom_def)

lemma newChatRoom_id: "newChatRoom b sl bn sn pid pr n1 n2 ''id'' = None"
  by (simp add: newChatRoom_def)

text \<open>
  C2, as amended. \<open>createChatRoom\<close> is idempotent for a validated subject
  and an existing listing that has an owner other than the subject, the
  subject and the owner being identifiers the store client accepts as
  document ids: two calls in sequence both succeed and return views with
  the same \<open>id\<close>; the second call answers 200 and leaves the store as the
  first call left it; and the view it returns carries every stored field of
  the room as stored, \<open>participants\<close> with each entry converted to a string
  (for a room the first call created, exactly the stored array).
\<close>

theorem findOrCreate_idempotent:
  assumes "user req = Some u" and "checkUid u = Inr buyerId"
    and "field (body req) ''productId'' = JStr productId" and "validDocPath productId"
    and "products s productId = Some product"
    and "toStr (js_or (field product ''userId'') (JStr [])) = sellerId"
    and "sellerId \<noteq> buyerId"
    and "validDocPath buyerId" and "validDocPath sellerId"
  shows "\<exists>st v1 v2 s1 d.
           createChatRoom s req now1 now2 = (Inr (st, v1), s1)
         \<and> createChatRoom s1 req now3 now4 = (Inr (200, v2), s1)
         \<and> v1 ''id'' = v2 ''id''
         \<and> map_of (chatRooms s1) (generateChatRoomId buyerId sellerId productId) = Some d
         \<and> (\<forall>k. k \<noteq> ''participants'' \<and> k \<noteq> ''otherParticipantId'' \<and> d k \<noteq> None \<longrightarrow> v2 k = d k)
         \<and> (d ''id'' = None \<longrightarrow>
               v2 ''id'' = Some (JStr (generateChatRoomId buyerId sellerId productId)))
         \<and> v2 ''participants'' = Some (JArr (map JStr (participantsOf (field d ''participants''))))
         \<and> (st = 201 \<longrightarrow> v2 ''participants'' = d ''participants'')"
proof (cases "map_of (chatRooms s) (generateChatRoomId buyerId sellerId productId)")
  case (Some d)
  have 1: "createChatRoom s req now1 now2 =
      (Inr (200, existingRoomView buyerId (generateChatRoomId buyerId sellerId productId) d), s)"
    using createChatRoom_reached [OF assms(1-7), of now1 now2] Some by simp
  have 2: "createChatRoom s req now3 now4 =
      (Inr (200, existingRoomView buyerId (generateChatRoomId buyerId sellerId productId) d), s)"
    using createChatRoom_reached [OF assms(1-7), of now3 now4] Some by simp
  show ?thesis
    using 1 2 Some
    by (auto simp: existingRoomView_fields existingRoomView_id existingRoomView_participants)
next
  case None
  let ?rid = "generateChatRoomId buyerId sellerId productId"
  let ?room = "newChatRoom buyerId sellerId (buyerNameOf (users s buyerId) u)
                 (sellerNameOf (users s sellerId) product) productId product now1 now2"
  let ?s1 = "s\<lparr>chatRooms := AList.update ?rid ?room (chatRooms s)\<rparr>"
  have 1: "createChatRoom s req now1 now2 =
      (Inr (201, ([''id'' \<mapsto> JStr ?rid] ++ ?room)(''otherParticipantId'' \<mapsto> JStr sellerId)), ?s1)"
    using createChatRoom_reached [OF assms(1-7), of now1 now2] None assms(8,9) by simp
  have found: "map_of (chatRooms ?s1) ?rid = Some ?room"
    by (simp add: update_conv')
  have p: "products ?s1 productId = Some product"
    using assms(5) by simp
  have 2: "createChatRoom ?s1 req now3 now4 = (Inr (200, existingRoomView buyerId ?rid ?room), ?s1)"
    using createChatRoom_reached [OF assms(1-4) p assms(6,7), of now3 now4] found by simp
  have id: "(([''id'' \<mapsto> JStr ?rid] ++ ?room)(''otherParticipantId'' \<mapsto> JStr sellerId)) ''id''
      = existingRoomView buyerId ?rid ?room ''id''"
    by (simp add: existingRoomView_id newChatRoom_id map_add_def)
  have parts: "existingRoomView buyerId ?rid ?room ''participants'' = ?room ''participants''"
    by (simp add: existingRoomView_participants newChatRoom_participants field_def)
  show ?thesis
    using 1 2 found id parts
    by (auto simp: existingRoomView_fields existingRoomView_id existingRoomView_participants)
qed


lemma scenario_listing_owner:
  "toStr (js_or (field scenario_listing ''userId'') (JStr [])) = ''u2''"
  by (simp add: scenario_listing_def field_def js_or_def)

lemma scenario_store0_listing: "products scenario_store0 ''p1'' = Some scenario_listing"
  by (simp add: scenario_store0_def)

lemma validDocPath_ids: "validDocPath ''u1''" "validDocPath ''u2''" "validDocPath ''p1''"
  by (simp_all add: validDocPath_def)

theorem findOrCreate_idempotent_witness:
  "\<exists>st v1 v2 s1.
      createChatRoom scenario_store0 (scenario_request ''u1'' [''productId'' \<mapsto> JStr ''p1''] [])
        ''2024-01-01T00:00:00.000Z'' ''2024-01-01T00:00:00.001Z'' = (Inr (st, v1), s1)
    \<and> createChatRoom s1 (scenario_request ''u1'' [''productId'' \<mapsto> JStr ''p1''] [])
        ''2024-01-01T00:00:05.000Z'' ''2024-01-01T00:00:05.001Z'' = (Inr (200, v2), s1)
    \<and> v1 ''id'' = v2 ''id''"
proof -
  have "\<exists>st v1 v2 s1 d.
      createChatRoom scenario_store0 (scenario_request ''u1'' [''productId'' \<mapsto> JStr ''p1''] [])
        ''2024-01-01T00:00:00.000Z'' ''2024-01-01T00:00:00.001Z'' = (Inr (st, v1), s1)
    \<and> createChatRoom s1 (scenario_request ''u1'' [''productId'' \<mapsto> JStr ''p1''] [])
        ''2024-01-01T00:00:05.000Z'' ''2024-01-01T00:00:05.001Z'' = (Inr (200, v2), s1)
    \<and> v1 ''id'' = v2 ''id''
    \<and> map_of (chatRooms s1) (generateChatRoomId ''u1'' ''u2'' ''p1'') = Some d
    \<and> (\<forall>k. k \<noteq> ''participants'' \<and> k \<noteq> ''otherParticipantId'' \<and> d k \<noteq> None \<longrightarrow> v2 k = d k)
    \<and> (d ''id'' = None \<longrightarrow> v2 ''id'' = Some (JStr (generateChatRoomId ''u1'' ''u2'' ''p1'')))
    \<and> v2 ''participants'' = Some (JArr (map JStr (participantsOf (field d ''participants''))))
    \<and> (st = 201 \<longrightarrow> v2 ''participants'' = d ''participants'')"
  proof (rule findOrCreate_idempotent)
    show "user (scenario_request ''u1'' [''productId'' \<mapsto> JStr ''p1''] []) = Some (scenario_user ''u1'')"
      by (simp add: scenario_request_sel)
    show "checkUid (scenario_user ''u1'') = Inr ''u1''"
      by (simp add: checkUid_scenario)
    show "field (body (scenario_request ''u1'' [''productId'' \<mapsto> JStr ''p1''] [])) ''productId'' = JStr ''p1''"
      by (simp add: scenario_request_sel field_upd_same)
    show "validDocPath ''p1''" "validDocPath ''u1''" "validDocPath ''u2''"
      by (simp_all add: validDocPath_ids)
    show "products scenario_store0 ''p1'' = Some scenario_listing"
      by (rule scenario_store0_listing)
    show "toStr (js_or (field scenario_listing ''userId'') (JStr [])) = ''u2''"
      by (rule scenario_listing_owner)
    show "''u2'' \<noteq> ''u1''"
      by simp
  qed
  then show ?thesis
    by (elim exE conjE) (intro exI conjI, assumption+)
qed

lemma not_validDocPath_empty: "\<not> validDocPath []"
  by (simp add: validDocPath_def)

text \<open>
  The claim as stated fails for an existing listing that has no \<open>userId\<close>.
  The subject is not the owner, since \<open>String(product.userId || '')\<close> is the
  empty string; no room exists yet, and \<open>db.collection('users').doc('')\<close>
  throws: the call returns no view, and neither does a second call on the
  unchanged store.
\<close>

theorem listing_without_owner_counterexample:
  "createChatRoom ownerless_store (scenario_request ''u1'' [''productId'' \<mapsto> JStr ''p1''] [])
     ''2024-01-01T00:00:00.000Z'' ''2024-01-01T00:00:00.001Z'' = (Inl invalidPath, ownerless_store)"
proof -
  have "toStr (js_or (field [''title'' \<mapsto> JStr ''compost''] ''userId'') (JStr [])) = []"
    by (simp add: field_def js_or_def)
  moreover have "products ownerless_store ''p1'' = Some [''title'' \<mapsto> JStr ''compost'']"
    and "chatRooms ownerless_store = []"
    by (simp_all add: ownerless_store_def)
  ultimately show ?thesis
    using createChatRoom_reached [of "scenario_request ''u1'' [''productId'' \<mapsto> JStr ''p1''] []"
      "scenario_user ''u1''" "''u1''" "''p1''" ownerless_store "[''title'' \<mapsto> JStr ''compost'']" "[]"
      "''2024-01-01T00:00:00.000Z''" "''2024-01-01T00:00:00.001Z''"]
    by (simp add: scenario_request_sel checkUid_scenario field_upd_same validDocPath_ids
        not_validDocPath_empty)
qed

subsection \<open>The participants of a room\<close>

lemma list_all_update:
  "list_all P al \<Longrightarrow> P (k, v) \<Longrightarrow> list_all P (AList.update k v al)"
  by (induction al) auto

lemma list_all_delete: "list_all P al \<Longrightarrow> list_all P (AList.delete k al)"
  by (induction al) auto

lemma createChatRoom_cases:
  "snd (createChatRoom s req now1 now2) = s
   \<or> (\<exists>u buyerId productId product.
         user req = Some u \<and> checkUid u = Inr buyerId
       \<and> field (body req) ''productId'' = JStr productId \<and> validDocPath productId
       \<and> products s productId = Some product
       \<and> toStr (js_or (field product ''userId'') (JStr [])) \<noteq> buyerId)"
  unfolding createChatRoom_def Let_def
  by (auto split: option.splits sum.splits jsval.splits)

lemma createChatRoom_store:
  "snd (createChatRoom s req now1 now2) = s
   \<or> (\<exists>b sl bn sn pid pr.
         b \<noteq> sl \<and> validDocPath b \<and> validDocPath sl
       \<and> map_of (chatRooms s) (generateChatRoomId b sl pid) = None
       \<and> snd (createChatRoom s req now1 now2) =
           s\<lparr>chatRooms := AList.update (generateChatRoomId b sl pid)
                (newChatRoom b sl bn sn pid pr now1 now2) (chatRooms s)\<rparr>)"
proof (cases "snd (createChatRoom s req now1 now2) = s")
  case True
  then show ?thesis by (rule disjI1)
next
  case False
  then obtain u buyerId productId product where h:
    "user req = Some u" "checkUid u = Inr buyerId"
    "field (body req) ''productId'' = JStr productId" "validDocPath productId"
    "products s productId = Some product"
    "toStr (js_or (field product ''userId'') (JStr [])) \<noteq> buyerId"
    using createChatRoom_cases [of s req now1 now2] by (elim disjE exE conjE) simp_all
  define sl where "sl = toStr (js_or (field product ''userId'') (JStr []))"
  define rid where "rid = generateChatRoomId buyerId sl productId"
  define room where "room = newChatRoom buyerId sl (buyerNameOf (users s buyerId) u)
             (sellerNameOf (users s sl) product) productId product now1 now2"
  have r: "createChatRoom s req now1 now2 =
     (case map_of (chatRooms s) rid of
        Some existingData \<Rightarrow> (Inr (200, existingRoomView buyerId rid existingData), s)
      | None \<Rightarrow>
          if \<not> validDocPath buyerId \<or> \<not> validDocPath sl then (Inl invalidPath, s)
          else (Inr (201, ([''id'' \<mapsto> JStr rid] ++ room)(''otherParticipantId'' \<mapsto> JStr sl)),
                s\<lparr>chatRooms := AList.update rid room (chatRooms s)\<rparr>))"
    unfolding sl_def rid_def room_def
    by (rule createChatRoom_reached [OF h(1-5) refl h(6)])
  have none: "map_of (chatRooms s) rid = None"
  proof (cases "map_of (chatRooms s) rid")
    case (Some d)
    then have "snd (createChatRoom s req now1 now2) = s" by (simp add: r)
    with False show ?thesis by simp
  qed simp
  have v: "validDocPath buyerId \<and> validDocPath sl"
  proof (rule ccontr)
    assume "\<not> (validDocPath buyerId \<and> validDocPath sl)"
    then have "snd (createChatRoom s req now1 now2) = s" by (simp add: r none)
    with False show False by simp
  qed
  have res: "snd (createChatRoom s req now1 now2) = s\<lparr>chatRooms := AList.update rid room (chatRooms s)\<rparr>"
    using v by (simp add: r none)
  have "buyerId \<noteq> sl" using h(6) by (simp add: sl_def)
  with v none res have "\<exists>b sl bn sn pid pr.
         b \<noteq> sl \<and> validDocPath b \<and> validDocPath sl
       \<and> map_of (chatRooms s) (generateChatRoomId b sl pid) = None
       \<and> snd (createChatRoom s req now1 now2) =
           s\<lparr>chatRooms := AList.update (generateChatRoomId b sl pid)
                (newChatRoom b sl bn sn pid pr now1 now2) (chatRooms s)\<rparr>"
    unfolding rid_def room_def
    by (intro exI [of _ buyerId] exI [of _ sl] exI [of _ "buyerNameOf (users s buyerId) u"]
        exI [of _ "sellerNameOf (users s sl) product"] exI [of _ productId] exI [of _ product])
      simp
  then show ?thesis by (rule disjI2)
qed

lemma postMessage_store:
  "snd (postMessage s req mid t1 t2) = s
   \<or> (\<exists>d tx z ms.
         map_of (chatRooms s) (params_id req) = Some d
       \<and> snd (postMessage s req mid t1 t2) =
           s\<lparr>messages := ms,
              chatRooms := AList.update (params_id req) (roomAfterPost d tx z t2) (chatRooms s)\<rparr>)"
  unfolding postMessage_def Let_def roomAfterPost_def
  by (auto split: option.splits sum.splits jsval.splits)

lemma reads_keep_store:
  "snd (getChatRooms gt s req) = s" "snd (getChatRoomById s req) = s" "snd (getMessages s req) = s"
  by (auto simp: getChatRooms_def getChatRoomById_def getMessages_def Let_def
      split: option.splits sum.splits)

lemma roomAfterPost_other:
  "f \<noteq> ''lastMessage'' \<Longrightarrow> f \<noteq> ''lastMessageSenderId'' \<Longrightarrow> f \<noteq> ''updatedAt'' \<Longrightarrow>
     roomAfterPost d tx z t2 f = d f"
  by (simp add: roomAfterPost_def)

lemma participantsInv_new:
  "b \<noteq> sl \<Longrightarrow> validDocPath b \<Longrightarrow> validDocPath sl \<Longrightarrow>
     participantsInv (field (newChatRoom b sl bn sn pid pr n1 n2) ''participants'')"
  by (simp add: newChatRoom_def field_def validDocPath_def)

lemma roomsInv_createChatRoom: "roomsInv s \<Longrightarrow> roomsInv (snd (createChatRoom s req now1 now2))"
  using createChatRoom_store [of s req now1 now2]
  by (auto simp: roomsInv_def intro!: list_all_update participantsInv_new)

lemma roomAfterPost_participants:
  "field (roomAfterPost d tx z t2) ''participants'' = field d ''participants''"
  by (simp add: field_def roomAfterPost_def)

lemma roomsInv_postMessage:
  assumes "roomsInv s"
  shows "roomsInv (snd (postMessage s req mid t1 t2))"
proof -
  consider "snd (postMessage s req mid t1 t2) = s"
    | d tx z ms where "map_of (chatRooms s) (params_id req) = Some d"
        "snd (postMessage s req mid t1 t2) =
           s\<lparr>messages := ms,
              chatRooms := AList.update (params_id req) (roomAfterPost d tx z t2) (chatRooms s)\<rparr>"
    using postMessage_store [of s req mid t1 t2] by (elim disjE exE conjE)
  then show ?thesis
  proof cases
    case 1
    with assms show ?thesis by simp
  next
    case 2
    from 2(1) have "(params_id req, d) \<in> set (chatRooms s)"
      by (rule map_of_SomeD)
    with assms have "participantsInv (field d ''participants'')"
      by (auto simp: roomsInv_def list_all_iff)
    with assms show ?thesis
      by (simp add: 2(2) roomsInv_def list_all_update roomAfterPost_participants)
  qed
qed

lemma roomsInv_deleteChatRoom: "roomsInv s \<Longrightarrow> roomsInv (snd (deleteChatRoom s req))"
  by (simp add: deleteChatRoom_def Let_def roomsInv_def list_all_delete)

lemma postMessage_fields:
  assumes "map_of (chatRooms (snd (postMessage s req mid t1 t2))) k = Some d'"
  shows "\<exists>d. map_of (chatRooms s) k = Some d
           \<and> (\<forall>f. f \<notin> {''lastMessage'', ''lastMessageSenderId'', ''updatedAt''} \<longrightarrow> d' f = d f)"
proof -
  consider "snd (postMessage s req mid t1 t2) = s"
    | d tx z ms where "map_of (chatRooms s) (params_id req) = Some d"
        "snd (postMessage s req mid t1 t2) =
           s\<lparr>messages := ms,
              chatRooms := AList.update (params_id req) (roomAfterPost d tx z t2) (chatRooms s)\<rparr>"
    using postMessage_store [of s req mid t1 t2] by (elim disjE exE conjE)
  then show ?thesis
  proof cases
    case 1
    with assms show ?thesis by simp
  next
    case 2
    show ?thesis
    proof (cases "k = params_id req")
      case True
      with assms 2 have "d' = roomAfterPost d tx z t2"
        by (simp add: update_conv')
      with True 2(1) show ?thesis
        by (simp add: roomAfterPost_other)
    next
      case False
      with assms 2 show ?thesis
        by (simp add: update_conv')
    qed
  qed
qed

text \<open>
  C8. The participants invariant. A room \<open>createChatRoom\<close> writes has a
  \<open>participants\<close> array of exactly two non-empty strings that differ: the
  subject passed the \<open>uid\<close> checks, the owner differs from the subject, and
  an empty owner identifier (a listing with no \<open>userId\<close>) is refused by
  \<open>db.collection('users').doc(sellerId)\<close> before the room is written. Every
  handler preserves the invariant on all rooms, and \<open>postMessage\<close> changes no
  field of a room but \<open>lastMessage\<close>, \<open>lastMessageSenderId\<close> and
  \<open>updatedAt\<close>.
\<close>

theorem participants_invariant:
  "(snd (createChatRoom s req now1 now2) = s
      \<or> (\<exists>rid room. map_of (chatRooms s) rid = None
            \<and> snd (createChatRoom s req now1 now2) = s\<lparr>chatRooms := AList.update rid room (chatRooms s)\<rparr>
            \<and> participantsInv (field room ''participants'')))
   \<and> (roomsInv s \<longrightarrow>
          roomsInv (snd (createChatRoom s req now1 now2))
        \<and> roomsInv (snd (postMessage s req mid t1 t2))
        \<and> roomsInv (snd (getChatRooms getTime s req))
        \<and> roomsInv (snd (getChatRoomById s req))
        \<and> roomsInv (snd (getMessages s req))
        \<and> roomsInv (snd (deleteChatRoom s req)))
   \<and> (\<forall>k d'. map_of (chatRooms (snd (postMessage s req mid t1 t2))) k = Some d' \<longrightarrow>
          (\<exists>d. map_of (chatRooms s) k = Some d
             \<and> (\<forall>f. f \<notin> {''lastMessage'', ''lastMessageSenderId'', ''updatedAt''} \<longrightarrow> d' f = d f)))"
proof (intro conjI impI allI)
  show "snd (createChatRoom s req now1 now2) = s
      \<or> (\<exists>rid room. map_of (chatRooms s) rid = None
            \<and> snd (createChatRoom s req now1 now2) = s\<lparr>chatRooms := AList.update rid room (chatRooms s)\<rparr>
            \<and> participantsInv (field room ''participants''))"
    using createChatRoom_store [of s req now1 now2] participantsInv_new by fast
next
  fix k d'
  assume "map_of (chatRooms (snd (postMessage s req mid t1 t2))) k = Some d'"
  then show "\<exists>d. map_of (chatRooms s) k = Some d
             \<and> (\<forall>f. f \<notin> {''lastMessage'', ''lastMessageSenderId'', ''updatedAt''} \<longrightarrow> d' f = d f)"
    by (rule postMessage_fields)
qed (simp_all add: roomsInv_createChatRoom roomsInv_postMessage roomsInv_deleteChatRoom reads_keep_store)

lemma roomsInv_scenario_store1: "roomsInv scenario_store1"
  by (simp add: roomsInv_def scenario_store1_def scenario_room_participants)

lemma scenario_create:
  "createChatRoom scenario_store0 (scenario_request ''u1'' [''productId'' \<mapsto> JStr ''p1''] [])
     ''2024-01-01T00:00:00.000Z'' ''2024-01-01T00:00:00.000Z'' =
   (Inr (201, ([''id'' \<mapsto> JStr scenario_roomId] ++ scenario_room)(''otherParticipantId'' \<mapsto> JStr ''u2'')),
    scenario_store1)"
proof -
  have n: "buyerNameOf None (scenario_user ''u1'') = JStr ''Buyer''"
    "sellerNameOf None scenario_listing = JStr ''Seller''"
    by (simp_all add: buyerNameOf_def sellerNameOf_def scenario_user_def scenario_listing_def
        js_or_def field_def)
  have "chatRooms scenario_store0 = []" and "users scenario_store0 = Map.empty"
    by (simp_all add: scenario_store0_def)
  then show ?thesis
    using createChatRoom_reached [of "scenario_request ''u1'' [''productId'' \<mapsto> JStr ''p1''] []"
      "scenario_user ''u1''" "''u1''" "''p1''" scenario_store0 scenario_listing "''u2''"
      "''2024-01-01T00:00:00.000Z''" "''2024-01-01T00:00:00.000Z''"]
    by (simp add: scenario_request_sel checkUid_scenario field_upd_same validDocPath_ids
        scenario_store0_listing scenario_listing_owner n scenario_roomId_def scenario_room_def
        scenario_store1_def)
qed

theorem participants_invariant_witness:
  "roomsInv scenario_store1
   \<and> roomsInv (snd (postMessage scenario_store1
         (scenario_request ''u1'' [''text'' \<mapsto> JStr ''hello''] scenario_roomId)
         ''m1'' ''2024-01-01T00:00:01.000Z'' ''2024-01-01T00:00:01.001Z''))
   \<and> (\<exists>rid room. map_of (chatRooms scenario_store0) rid = None
         \<and> snd (createChatRoom scenario_store0
                 (scenario_request ''u1'' [''productId'' \<mapsto> JStr ''p1''] [])
                 ''2024-01-01T00:00:00.000Z'' ''2024-01-01T00:00:00.000Z'') =
             scenario_store0\<lparr>chatRooms := AList.update rid room (chatRooms scenario_store0)\<rparr>
         \<and> participantsInv (field room ''participants''))"
proof -
  have "roomsInv (snd (postMessage scenario_store1
         (scenario_request ''u1'' [''text'' \<mapsto> JStr ''hello''] scenario_roomId)
         ''m1'' ''2024-01-01T00:00:01.000Z'' ''2024-01-01T00:00:01.001Z''))"
    using roomsInv_scenario_store1
      participants_invariant [of scenario_store1
        "scenario_request ''u1'' [''text'' \<mapsto> JStr ''hello''] scenario_roomId"
        "''2024-01-01T00:00:01.000Z''" "''2024-01-01T00:00:01.001Z''" "''m1''"
        "''2024-01-01T00:00:01.000Z''" "''2024-01-01T00:00:01.001Z''" "\<lambda>v. 0"]
    by simp
  moreover have "scenario_store1 \<noteq> scenario_store0"
    by (simp add: scenario_store1_def scenario_store0_def)
  then have "\<exists>rid room. map_of (chatRooms scenario_store0) rid = None
         \<and> snd (createChatRoom scenario_store0
                 (scenario_request ''u1'' [''productId'' \<mapsto> JStr ''p1''] [])
                 ''2024-01-01T00:00:00.000Z'' ''2024-01-01T00:00:00.000Z'') =
             scenario_store0\<lparr>chatRooms := AList.update rid room (chatRooms scenario_store0)\<rparr>
         \<and> participantsInv (field room ''participants'')"
    using participants_invariant [of scenario_store0
        "scenario_request ''u1'' [''productId'' \<mapsto> JStr ''p1''] []"
        "''2024-01-01T00:00:00.000Z''" "''2024-01-01T00:00:00.000Z''"]
    by (simp add: scenario_create)
  ultimately show ?thesis
    using roomsInv_scenario_store1 by simp
qed

subsection \<open>The order of the messages\<close>

lemma getMessages_success:
  assumes "getMessages s req = (Inr (st, ms), s')"
  shows "s' = s \<and> st = 200 \<and> ms = orderByTimestamp (messages s (params_id req))"
  using assms
  by (auto simp: getMessages_def Let_def split: option.splits sum.splits if_splits)

lemma postMessage_success:
  assumes "postMessage s req mid t1 t2 = (Inr (c, M), s')"
  shows "c = 201 \<and> fst M = mid \<and> m_timestamp (snd M) = t1
       \<and> messages s' = (messages s)(params_id req := messages s (params_id req) @ [M])"
  using assms unfolding postMessage_def Let_def
  by (auto split: option.splits sum.splits jsval.splits if_splits)

lemma mset_orderByTimestamp: "mset (orderByTimestamp ms) = mset ms"
  by (simp add: orderByTimestamp_def)

lemma sorted_keys_orderByTimestamp:
  "sorted (map (\<lambda>m. (m_timestamp (snd m), fst m)) (orderByTimestamp ms))"
  by (simp add: orderByTimestamp_def)

lemma sorted_fst_of_pairs:
  "sorted (map (\<lambda>m. (f m, g m)) xs) \<Longrightarrow> sorted (map f xs)"
  for f :: "'a \<Rightarrow> 'b::linorder" and g :: "'a \<Rightarrow> 'c::linorder"
  by (induction xs) (auto simp: less_eq_prod_def)

lemma sorted_timestamps_orderByTimestamp:
  "sorted (map (m_timestamp \<circ> snd) (orderByTimestamp ms))"
  using sorted_fst_of_pairs [OF sorted_keys_orderByTimestamp, of ms]
  by (simp add: comp_def)

lemma sorted_places:
  fixes f :: "'a \<Rightarrow> 'b::linorder"
  assumes "sorted (map f ms)" and "a \<in> set ms" and "b \<in> set ms" and "f a < f b"
  shows "\<exists>xs ys zs. ms = xs @ a # ys @ b # zs"
proof -
  from assms(3) obtain us vs where ms: "ms = us @ b # vs"
    by (auto dest: split_list)
  have "a \<notin> set vs"
  proof
    assume "a \<in> set vs"
    with assms(1) ms have "f b \<le> f a"
      by (auto simp: sorted_append)
    with assms(4) show False by simp
  qed
  moreover have "a \<noteq> b" using assms(4) by auto
  ultimately have "a \<in> set us" using assms(2) ms by auto
  then obtain xs ys where "us = xs @ a # ys"
    by (auto dest: split_list)
  with ms show ?thesis by auto
qed

lemma orderByTimestamp_two:
  "(m_timestamp (snd a), fst a) \<le> (m_timestamp (snd b), fst b) \<Longrightarrow> orderByTimestamp [a, b] = [a, b]"
  by (simp add: orderByTimestamp_def)

text \<open>
  C7, as amended. \<open>getMessages\<close> returns every message of the room, in
  ascending order of \<open>timestamp\<close>. After \<open>M1\<close> and then \<open>M2\<close> were posted to
  a room, \<open>M1\<close> comes before \<open>M2\<close> in the list when the clock reading stored in
  \<open>M2\<close> is later than the one stored in \<open>M1\<close>; in a room that was empty the
  list is then \<open>[M1, M2]\<close>.
\<close>

theorem messages_by_timestamp:
  "(getMessages s req = (Inr (st, ms), s') \<longrightarrow>
      mset ms = mset (messages s (params_id req)) \<and> sorted (map (m_timestamp \<circ> snd) ms))
   \<and> (postMessage s req1 id1 t1 u1 = (Inr (c1, M1), s1)
        \<and> postMessage s1 req2 id2 t2 u2 = (Inr (c2, M2), s2)
        \<and> params_id req2 = params_id req1 \<and> params_id req3 = params_id req1
        \<and> t1 < t2
        \<and> getMessages s2 req3 = (Inr (c3, ms'), s3) \<longrightarrow>
          (\<exists>xs ys zs. ms' = xs @ M1 # ys @ M2 # zs)
        \<and> (messages s (params_id req1) = [] \<longrightarrow> ms' = [M1, M2]))"
proof (intro conjI impI)
  assume "getMessages s req = (Inr (st, ms), s')"
  then have ms: "ms = orderByTimestamp (messages s (params_id req))"
    by (simp add: getMessages_success)
  show "mset ms = mset (messages s (params_id req))"
    by (simp add: ms mset_orderByTimestamp)
  show "sorted (map (m_timestamp \<circ> snd) ms)"
    unfolding ms by (rule sorted_timestamps_orderByTimestamp)
next
  assume a: "postMessage s req1 id1 t1 u1 = (Inr (c1, M1), s1)
        \<and> postMessage s1 req2 id2 t2 u2 = (Inr (c2, M2), s2)
        \<and> params_id req2 = params_id req1 \<and> params_id req3 = params_id req1
        \<and> t1 < t2
        \<and> getMessages s2 req3 = (Inr (c3, ms'), s3)"
  define rid where "rid = params_id req1"
  have p1: "m_timestamp (snd M1) = t1" "messages s1 rid = messages s rid @ [M1]"
    using a postMessage_success [of s req1 id1 t1 u1 c1 M1 s1] by (simp_all add: rid_def)
  have p2: "m_timestamp (snd M2) = t2" "messages s2 rid = messages s1 rid @ [M2]"
    using a postMessage_success [of s1 req2 id2 t2 u2 c2 M2 s2] by (simp_all add: rid_def)
  have ms: "ms' = orderByTimestamp (messages s rid @ [M1, M2])"
    using a getMessages_success [of s2 req3 c3 ms' s3] p1 p2 by (simp add: rid_def)
  have lt: "(m_timestamp (snd M1), fst M1) < (m_timestamp (snd M2), fst M2)"
    using a p1 p2 by (simp add: less_prod_def)
  have "M1 \<in> set ms'" "M2 \<in> set ms'"
    by (simp_all add: ms orderByTimestamp_def)
  then show "\<exists>xs ys zs. ms' = xs @ M1 # ys @ M2 # zs"
    using sorted_places [OF sorted_keys_orderByTimestamp, of M1 "messages s rid @ [M1, M2]" M2] lt
    by (simp add: ms)
  show "ms' = [M1, M2]" if "messages s (params_id req1) = []"
  proof -
    from lt have "(m_timestamp (snd M1), fst M1) \<le> (m_timestamp (snd M2), fst M2)"
      by (rule less_imp_le)
    then have "orderByTimestamp [M1, M2] = [M1, M2]"
      by (rule orderByTimestamp_two)
    with that show ?thesis
      by (simp add: ms rid_def)
  qed
qed


lemma trim_again: "trim ''again'' = ''again''"
  by (simp add: trim_def isSpace_def)

lemma scenario_post:
  assumes "map_of (chatRooms s) scenario_roomId = Some d"
    and "field d ''participants'' = JArr [JStr ''u1'', JStr ''u2'']"
    and "trim tx \<noteq> []"
  shows "postMessage s (scenario_request ''u1'' [''text'' \<mapsto> JStr tx] scenario_roomId) mid t1 t2 =
   (Inr (201, mid, \<lparr>m_chatRoomId = scenario_roomId, m_senderId = ''u1'', m_receiverId = ''u2'',
                    m_text = trim tx, m_timestamp = t1, m_read = False\<rparr>),
    s\<lparr>messages := (messages s)(scenario_roomId := messages s scenario_roomId @
        [(mid, \<lparr>m_chatRoomId = scenario_roomId, m_senderId = ''u1'', m_receiverId = ''u2'',
                 m_text = trim tx, m_timestamp = t1, m_read = False\<rparr>)]),
      chatRooms := AList.update scenario_roomId (roomAfterPost d tx ''u1'' t2) (chatRooms s)\<rparr>)"
  using assms
    postMessage_found [of "scenario_request ''u1'' [''text'' \<mapsto> JStr tx] scenario_roomId"
      "scenario_user ''u1''" "''u1''" s d tx mid t1 t2]
  by (simp add: scenario_request_sel checkUid_scenario validDocPath_scenario_roomId field_upd_same)

text \<open>
  The claim as stated fails when two posts read the same millisecond: the
  list is ordered by timestamp and then by the generated document id, so the
  message posted second, with the smaller id, comes first.
\<close>

theorem posting_order_counterexample:
  "fst (getMessages
          (snd (postMessage
                  (snd (postMessage scenario_store1
                          (scenario_request ''u1'' [''text'' \<mapsto> JStr ''hello''] scenario_roomId)
                          ''zq1'' same_instant same_instant))
                  (scenario_request ''u1'' [''text'' \<mapsto> JStr ''again''] scenario_roomId)
                  ''ab7'' same_instant same_instant))
          (scenario_request ''u1'' Map.empty scenario_roomId)) =
   Inr (200,
     [(''ab7'', \<lparr>m_chatRoomId = scenario_roomId, m_senderId = ''u1'', m_receiverId = ''u2'',
                 m_text = ''again'', m_timestamp = same_instant, m_read = False\<rparr>),
      (''zq1'', \<lparr>m_chatRoomId = scenario_roomId, m_senderId = ''u1'', m_receiverId = ''u2'',
                 m_text = ''hello'', m_timestamp = same_instant, m_read = False\<rparr>)])"
proof -
  define s1 where "s1 = snd (postMessage scenario_store1
      (scenario_request ''u1'' [''text'' \<mapsto> JStr ''hello''] scenario_roomId)
      ''zq1'' same_instant same_instant)"
  define s2 where "s2 = snd (postMessage s1
      (scenario_request ''u1'' [''text'' \<mapsto> JStr ''again''] scenario_roomId)
      ''ab7'' same_instant same_instant)"
  have s1: "map_of (chatRooms s1) scenario_roomId =
        Some (roomAfterPost scenario_room ''hello'' ''u1'' same_instant)"
      "messages s1 scenario_roomId =
        [(''zq1'', \<lparr>m_chatRoomId = scenario_roomId, m_senderId = ''u1'', m_receiverId = ''u2'',
                 m_text = ''hello'', m_timestamp = same_instant, m_read = False\<rparr>)]"
    unfolding s1_def
    using scenario_post [OF scenario_store1_room scenario_room_participants, of "''hello''"
        "''zq1''" same_instant same_instant]
    by (simp_all add: trim_hello update_conv' scenario_store1_def scenario_store0_def)
  have s2: "map_of (chatRooms s2) scenario_roomId =
        Some (roomAfterPost (roomAfterPost scenario_room ''hello'' ''u1'' same_instant)
                ''again'' ''u1'' same_instant)"
      "messages s2 scenario_roomId =
        [(''zq1'', \<lparr>m_chatRoomId = scenario_roomId, m_senderId = ''u1'', m_receiverId = ''u2'',
                 m_text = ''hello'', m_timestamp = same_instant, m_read = False\<rparr>),
         (''ab7'', \<lparr>m_chatRoomId = scenario_roomId, m_senderId = ''u1'', m_receiverId = ''u2'',
                 m_text = ''again'', m_timestamp = same_instant, m_read = False\<rparr>)]"
    unfolding s2_def
    using scenario_post [OF s1(1), of "''again''" "''ab7''" same_instant same_instant] s1(2)
    by (simp_all add: trim_again update_conv' roomAfterPost_participants scenario_room_participants)
  have "fst (getMessages s2 (scenario_request ''u1'' Map.empty scenario_roomId)) =
      Inr (200, orderByTimestamp (messages s2 scenario_roomId))"
    using s2(1) getMessages_found [of "scenario_request ''u1'' Map.empty scenario_roomId"
        "scenario_user ''u1''" "''u1''" s2
        "roomAfterPost (roomAfterPost scenario_room ''hello'' ''u1'' same_instant)
           ''again'' ''u1'' same_instant"]
    by (simp add: scenario_request_sel checkUid_scenario validDocPath_scenario_roomId
        roomAfterPost_participants scenario_room_participants)
  then show ?thesis
    unfolding s2_def [symmetric] s1_def [symmetric]
    by (simp add: s2(2) orderByTimestamp_def)
qed

theorem messages_by_timestamp_witness:
  "\<exists>M1 M2 s1 s2 s3 ms.
      postMessage scenario_store1
        (scenario_request ''u1'' [''text'' \<mapsto> JStr ''hello''] scenario_roomId)
        ''zq1'' ''2024-01-01T00:00:01.000Z'' ''2024-01-01T00:00:01.001Z'' = (Inr (201, M1), s1)
    \<and> postMessage s1
        (scenario_request ''u1'' [''text'' \<mapsto> JStr ''again''] scenario_roomId)
        ''ab7'' ''2024-01-01T00:00:02.000Z'' ''2024-01-01T00:00:02.001Z'' = (Inr (201, M2), s2)
    \<and> ''2024-01-01T00:00:01.000Z'' < ''2024-01-01T00:00:02.000Z''
    \<and> getMessages s2 (scenario_request ''u1'' Map.empty scenario_roomId) = (Inr (200, ms), s3)
    \<and> ms = [M1, M2]
    \<and> mset ms = mset (messages s2 scenario_roomId)
    \<and> sorted (map (m_timestamp \<circ> snd) ms)"
proof -
  let ?H = "scenario_request ''u1'' [''text'' \<mapsto> JStr ''hello''] scenario_roomId"
  let ?A = "scenario_request ''u1'' [''text'' \<mapsto> JStr ''again''] scenario_roomId"
  let ?R = "scenario_request ''u1'' Map.empty scenario_roomId"
  let ?t1 = "''2024-01-01T00:00:01.000Z''" and ?u1 = "''2024-01-01T00:00:01.001Z''"
  let ?t2 = "''2024-01-01T00:00:02.000Z''" and ?u2 = "''2024-01-01T00:00:02.001Z''"
  obtain M1 s1 where p1: "postMessage scenario_store1 ?H ''zq1'' ?t1 ?u1 = (Inr (201, M1), s1)"
    and r1: "map_of (chatRooms s1) scenario_roomId = Some (roomAfterPost scenario_room ''hello'' ''u1'' ?u1)"
    using scenario_post [OF scenario_store1_room scenario_room_participants, of "''hello''"
        "''zq1''" ?t1 ?u1]
    by (simp add: trim_hello update_conv')
  obtain M2 s2 where p2: "postMessage s1 ?A ''ab7'' ?t2 ?u2 = (Inr (201, M2), s2)"
    and r2: "map_of (chatRooms s2) scenario_roomId =
       Some (roomAfterPost (roomAfterPost scenario_room ''hello'' ''u1'' ?u1) ''again'' ''u1'' ?u2)"
    using scenario_post [OF r1, of "''again''" "''ab7''" ?t2 ?u2]
    by (simp add: trim_again update_conv' roomAfterPost_participants scenario_room_participants)
  obtain ms where g: "getMessages s2 ?R = (Inr (200, ms), s2)"
    using r2 getMessages_found [of ?R "scenario_user ''u1''" "''u1''" s2
        "roomAfterPost (roomAfterPost scenario_room ''hello'' ''u1'' ?u1) ''again'' ''u1'' ?u2"]
    by (simp add: scenario_request_sel checkUid_scenario validDocPath_scenario_roomId
        roomAfterPost_participants scenario_room_participants)
  have lt: "?t1 < ?t2" by simp
  have e: "messages scenario_store1 (params_id ?H) = []"
    by (simp add: scenario_store1_def scenario_store0_def)
  have par: "params_id ?A = params_id ?H" "params_id ?R = params_id ?H" "params_id ?R = scenario_roomId"
    by (simp_all add: scenario_request_sel)
  have "ms = [M1, M2]"
    using messages_by_timestamp [where s = scenario_store1 and ?req1.0 = ?H and ?id1.0 = "''zq1''"
        and ?t1.0 = ?t1 and ?u1.0 = ?u1 and ?c1.0 = 201 and ?M1.0 = M1 and ?s1.0 = s1
        and ?req2.0 = ?A and ?id2.0 = "''ab7''" and ?t2.0 = ?t2 and ?u2.0 = ?u2 and ?c2.0 = 201
        and ?M2.0 = M2 and ?s2.0 = s2 and ?req3.0 = ?R and ?c3.0 = 200 and ms' = ms and ?s3.0 = s2]
      p1 p2 g lt e par(1,2)
    by blast
  moreover have "mset ms = mset (messages s2 scenario_roomId) \<and> sorted (map (m_timestamp \<circ> snd) ms)"
    using messages_by_timestamp [where s = s2 and req = ?R and st = 200 and ms = ms and s' = s2]
      g par(3)
    by simp
  ultimately show ?thesis
    using p1 p2 g lt by blast
qed

subsection \<open>The other participant\<close>

lemma chatRoomEntry_name:
  "chatRoomEntry caller d ''otherParticipantName'' =
     Some (if isArray (field (snd d) ''participantNames'')
              \<and> 0 \<le> findIndex (\<lambda>i. i \<noteq> caller) (participantsOf (field (snd d) ''participants''))
           then jsIndex (field (snd d) ''participantNames'')
                  (findIndex (\<lambda>i. i \<noteq> caller) (participantsOf (field (snd d) ''participants'')))
           else JStr ''Unknown'')"
  by (cases "field (snd d) ''participantNames''") (simp_all add: chatRoomEntry_def Let_def)

text \<open>
  C9. The name of the other participant in \<open>getChatRooms\<close>. The handler
  falls back to \<open>"Unknown"\<close> when \<open>participantNames\<close> is missing or not an
  array or when no participant differs from the caller, but not when the
  array is shorter than the other participant's index: for \<open>u1\<close>, the room
  \<open>short\<close> (two participants, one name) is returned with
  \<open>otherParticipantName\<close> \<open>undefined\<close>, where the room \<open>solo\<close> (no names) is
  returned with \<open>"Unknown"\<close>.
\<close>

theorem short_names_undefined:
  "map (\<lambda>v. (v ''id'', v ''otherParticipantId'', v ''otherParticipantName''))
     (case fst (getChatRooms (\<lambda>v. 0) legacy_store (scenario_request ''u1'' Map.empty [])) of
        Inl e \<Rightarrow> []
      | Inr r \<Rightarrow> snd r) =
   [(Some (JStr ''short''), Some (JStr ''u2''), Some JUndefined),
    (Some (JStr ''solo''), Some JNull, Some (JStr ''Unknown''))]"
  by (simp add: getChatRooms_def legacy_store_def scenario_request_def scenario_user_def
      checkUid_def chatRoomEntry_def field_def jsFind_def js_or_def map_add_def Let_def
      roomTime_def)





















end
